theory Spec2Isabelle
  imports Complex_Main "HOL-Library.Multiset" "HOL-Library.Sublist"
begin

section \<open>Values of the program\<close>

text \<open>
  A model of the detour application \<open>gacha-map\<close>: the geometry, the conversion of
  elements of the data source to spots, the rating and the random selection of
  \<open>services/overpassService.ts\<close>, and the handlers of \<open>App.tsx\<close> for a roll, a click on
  the map and the reset. The definitions follow the functions of the program one by one
  and keep their names; the properties proved of them come after all definitions.
\<close>

text \<open>
  The TypeScript type \<open>number\<close> is modelled by \<^typ>\<open>real\<close>: the arithmetic of the
  program is read as exact arithmetic, the rounding of IEEE doubles is not part of the
  model. The library functions \<open>Math.sin\<close>, \<open>Math.cos\<close>, \<open>Math.sqrt\<close>, \<open>Math.abs\<close>
  and \<open>Math.PI\<close> are \<^const>\<open>sin\<close>, \<^const>\<open>cos\<close>, \<^const>\<open>sqrt\<close>, \<^const>\<open>abs\<close> and
  \<^const>\<open>pi\<close>; every argument that the program gives to \<open>Math.sqrt\<close> is shown to be
  non-negative below, so \<^const>\<open>sqrt\<close> is never used outside the domain on which it agrees
  with the library function.

  Counts and array indices are \<^typ>\<open>nat\<close>. Strings are \<^typ>\<open>string\<close>; text outside ASCII is
  written as its UTF-8 bytes, which for well-formed text gives the same substring relation
  as the UTF-16 code units of the program.
\<close>

subsection \<open>Points\<close>

text \<open>\<open>types.ts\<close>, \<open>interface Point\<close>.\<close>

record point =
  lat :: real
  lng :: real
  name :: "string option"

subsection \<open>Library functions\<close>

text \<open>
  \<open>Math.atan2(y, x)\<close> on finite arguments, a zero being the positive zero (the program
  only passes results of \<open>Math.sqrt\<close>).
\<close>

definition Math_atan2 :: "real \<Rightarrow> real \<Rightarrow> real" where
  "Math_atan2 y x =
     (if 0 < x then arctan (y / x)
      else if x < 0 then (if 0 \<le> y then arctan (y / x) + pi else arctan (y / x) - pi)
      else if 0 < y then pi / 2
      else if y < 0 then - (pi / 2)
      else 0)"

section \<open>Geometry (\<open>services/overpassService.ts\<close>)\<close>

text \<open>\<open>calculateMidPoint\<close>, lines 43-48.\<close>

definition calculateMidPoint :: "point \<Rightarrow> point \<Rightarrow> point" where
  "calculateMidPoint start end' =
     \<lparr>lat = (lat start + lat end') / 2,
      lng = (lng start + lng end') / 2,
      name = None\<rparr>"

text \<open>
  \<open>calculateNearDestinationPoints\<close>, lines 66-80. The \<open>for\<close> loop runs \<open>i\<close> from \<open>0\<close>
  while \<open>i < count\<close> and pushes one point per round; \<open>nearDestinationLoop\<close> is that loop
  with the loop variable and the array built so far as arguments.
\<close>

function nearDestinationLoop :: "point \<Rightarrow> point \<Rightarrow> nat \<Rightarrow> nat \<Rightarrow> point list \<Rightarrow> point list" where
  "nearDestinationLoop start end' count' i points =
     (if i < count' then
        (let ratio = (real i + 1) / (real count' + 1)
         in nearDestinationLoop start end' count' (i + 1)
              (points @ [\<lparr>lat = lat start + (lat end' - lat start) * ratio,
                          lng = lng start + (lng end' - lng start) * ratio,
                          name = None\<rparr>]))
      else points)"
  by pat_completeness auto
termination
  by (relation "measure (\<lambda>(start, end', count', i, points). count' - i)") auto

declare nearDestinationLoop.simps [simp del]

definition calculateNearDestinationPoints :: "point \<Rightarrow> point \<Rightarrow> nat \<Rightarrow> point list" where
  "calculateNearDestinationPoints start end' count' = nearDestinationLoop start end' count' 0 []"

text \<open>\<open>calculateDistance\<close>, lines 220-229: the Haversine formula, in kilometres.\<close>

definition calculateDistance :: "point \<Rightarrow> point \<Rightarrow> real" where
  "calculateDistance point1 point2 =
     (let R = 6371;
          dLat = (lat point2 - lat point1) * pi / 180;
          dLng = (lng point2 - lng point1) * pi / 180;
          a = sin (dLat / 2) * sin (dLat / 2) +
              cos (lat point1 * pi / 180) * cos (lat point2 * pi / 180) *
              sin (dLng / 2) * sin (dLng / 2);
          c = 2 * Math_atan2 (sqrt a) (sqrt (1 - a))
      in R * c)"

text \<open>\<open>calculateSearchRadius\<close>, lines 232-252.\<close>

definition calculateSearchRadius :: "point \<Rightarrow> point \<Rightarrow> real" where
  "calculateSearchRadius startPoint endPoint =
     (let distance = calculateDistance startPoint endPoint
      in if distance \<le> 1 then 1500
         else if distance \<le> 3 then 2000
         else if distance \<le> 10 then 3000
         else if distance \<le> 20 then 5000
         else 7000)"

section \<open>Library functions on numbers and strings\<close>

text \<open>
  A division of the program can have a zero divisor. Its result is then not a real: the
  values a \<open>number\<close> can take there are written out. The divisor of the program is a
  result of \<open>Math.sqrt\<close>, so a zero divisor is the positive zero.
\<close>

datatype jsnumber = Num real | PosInfinity | NegInfinity | NaN

definition js_divide :: "real \<Rightarrow> real \<Rightarrow> jsnumber" where
  "js_divide x y =
     (if y \<noteq> 0 then Num (x / y)
      else if 0 < x then PosInfinity
      else if x < 0 then NegInfinity
      else NaN)"

fun js_times :: "jsnumber \<Rightarrow> real \<Rightarrow> jsnumber" where
  "js_times (Num x) y = Num (x * y)"
| "js_times PosInfinity y = (if 0 < y then PosInfinity else if y < 0 then NegInfinity else NaN)"
| "js_times NegInfinity y = (if 0 < y then NegInfinity else if y < 0 then PosInfinity else NaN)"
| "js_times NaN y = NaN"

text \<open>\<open>x > y\<close>: a comparison with \<open>NaN\<close> is false.\<close>

fun js_greater :: "jsnumber \<Rightarrow> real \<Rightarrow> bool" where
  "js_greater (Num x) y = (y < x)"
| "js_greater PosInfinity y = True"
| "js_greater NegInfinity y = False"
| "js_greater NaN y = False"

text \<open>\<open>x || 0\<close> for an optional number: \<open>undefined\<close>, \<open>NaN\<close> and \<open>0\<close> are falsy.\<close>

fun orZero :: "jsnumber option \<Rightarrow> jsnumber" where
  "orZero None = Num 0"
| "orZero (Some NaN) = Num 0"
| "orZero (Some x) = x"

text \<open>
  Truthiness of an optional string (\<open>if (s)\<close>, \<open>!s\<close>, \<open>s || d\<close>): \<open>undefined\<close> and the
  empty string are falsy.
\<close>

fun truthy :: "string option \<Rightarrow> bool" where
  "truthy None = False"
| "truthy (Some s) = (s \<noteq> [])"

fun orElse :: "string option \<Rightarrow> string \<Rightarrow> string" where
  "orElse None d = d"
| "orElse (Some s) d = (if s \<noteq> [] then s else d)"

text \<open>Truthiness of an optional boolean: \<open>undefined\<close> and \<open>false\<close> are falsy.\<close>

fun truthyFlag :: "bool option \<Rightarrow> bool" where
  "truthyFlag None = False"
| "truthyFlag (Some b) = b"

text \<open>\<open>String.prototype.includes\<close> and \<open>Array.prototype.join\<close>.\<close>

fun String_includes :: "string \<Rightarrow> string \<Rightarrow> bool" where
  "String_includes [] searchString = (searchString = [])"
| "String_includes (c # cs) searchString =
     (prefix searchString (c # cs) \<or> String_includes cs searchString)"

fun Array_join :: "string \<Rightarrow> string list \<Rightarrow> string" where
  "Array_join separator [] = []"
| "Array_join separator [x] = x"
| "Array_join separator (x # y # ys) = x @ separator @ Array_join separator (y # ys)"

text \<open>
  Decimal digits of a natural number, and the string of an integer-valued number
  (template literal \<open>${n}\<close>).
\<close>

definition digit :: "nat \<Rightarrow> char" where
  "digit d = ''0123456789'' ! d"

fun showNat :: "nat \<Rightarrow> string" where
  "showNat n = (if n < 10 then [digit n] else showNat (n div 10) @ [digit (n mod 10)])"

declare showNat.simps [simp del]

definition showInt :: "int \<Rightarrow> string" where
  "showInt i = (if i < 0 then ''-'' @ showNat (nat (- i)) else showNat (nat i))"

text \<open>
  \<open>Number.prototype.toFixed(fractionDigits)\<close> as ECMAScript defines it for a finite
  number below \<open>10^21\<close> in absolute value: the sign, then the integer \<open>n\<close> nearest to
  \<open>x * 10^fractionDigits\<close> (the larger one of two), written with the decimal point before
  its last \<open>fractionDigits\<close> digits. The exponent notation that the method gives for
  greater numbers is not modelled; the program formats coordinates, distances and scores.
\<close>

definition toFixed :: "nat \<Rightarrow> real \<Rightarrow> string" where
  "toFixed fractionDigits x =
     (let s = (if x < 0 then ''-'' else '''');
          x = \<bar>x\<bar>;
          n = nat \<lfloor>x * 10 ^ fractionDigits + 1 / 2\<rfloor>;
          m = (if n = 0 then ''0'' else showNat n);
          m = (if fractionDigits \<noteq> 0 then
                 (let k = length m;
                      m = (if k \<le> fractionDigits
                           then replicate (fractionDigits + 1 - k) CHR ''0'' @ m else m);
                      k = (if k \<le> fractionDigits then fractionDigits + 1 else k)
                  in take (k - fractionDigits) m @ ''.'' @ drop (k - fractionDigits) m)
               else m)
      in s @ m)"

fun toFixed_jsnumber :: "nat \<Rightarrow> jsnumber \<Rightarrow> string" where
  "toFixed_jsnumber fractionDigits (Num x) = toFixed fractionDigits x"
| "toFixed_jsnumber fractionDigits PosInfinity = ''Infinity''"
| "toFixed_jsnumber fractionDigits NegInfinity = ''-Infinity''"
| "toFixed_jsnumber fractionDigits NaN = ''NaN''"

section \<open>Data model (\<open>types.ts\<close>)\<close>

text \<open>The values of \<open>Spot['category']\<close>.\<close>

datatype category =
  Restaurant | Tourist_attraction | Gas_station | Shop | Cafe | All_categories

text \<open>
  \<open>interface Spot\<close>. An optional field is an \<open>option\<close>; \<open>stars\<close> has the type
  \<open>1 | 2 | 3\<close> and is a natural number here. The fields \<open>id\<close> and \<open>type\<close> are
  written \<open>id'\<close> and \<open>type'\<close>; fields of different records that have the same name
  are told apart by the name of the record, as in \<open>spot.lat\<close> and \<open>point.lat\<close>. A spot
  is passed where the program expects a \<open>Point\<close>: \<open>spotPoint\<close> is that view of a spot.
\<close>

record spot =
  id' :: string
  name :: string
  lat :: real
  lng :: real
  type' :: string
  category :: category
  description :: "string option"
  address :: "string option"
  phone :: "string option"
  website :: "string option"
  openingHours :: "string option"
  cuisine :: "string option"
  rating :: "real option"
  isChain :: "bool option"
  chainName :: "string option"
  isMajorChain :: "bool option"
  stars :: "nat option"
  distanceFromRoute :: "jsnumber option"
  debugInfo :: "string option"

definition spotPoint :: "spot \<Rightarrow> point" where
  "spotPoint s = \<lparr>point.lat = spot.lat s, point.lng = spot.lng s, point.name = Some (spot.name s)\<rparr>"

text \<open>
  \<open>interface OverpassElement\<close>. The \<open>id\<close> of an element is an integer; \<open>tags\<close> maps a
  key to its string, a key without a string is absent.
\<close>

record overpassElement =
  type' :: string
  id' :: int
  lat :: real
  lon :: real
  tags :: "string \<rightharpoonup> string"

section \<open>From elements to spots (\<open>services/overpassService.ts\<close>)\<close>

text \<open>\<open>determineCategory\<close>, lines 183-190.\<close>

definition determineCategory :: "(string \<rightharpoonup> string) \<Rightarrow> category" where
  "determineCategory tags' =
     (if tags' ''amenity'' = Some ''restaurant'' \<or> tags' ''amenity'' = Some ''fast_food''
        then Restaurant
      else if tags' ''amenity'' = Some ''cafe'' then Cafe
      else if tags' ''tourism'' = Some ''attraction'' \<or> tags' ''tourism'' = Some ''museum''
        then Tourist_attraction
      else if tags' ''amenity'' = Some ''fuel'' then Gas_station
      else if truthy (tags' ''shop'') then Shop
      else Restaurant)"

text \<open>
  \<open>generateDescription\<close>, lines 193-202. \<open>pushIf\<close> is the statement
  \<open>if (t) parts.push(f(t))\<close>.
\<close>

definition pushIf :: "string option \<Rightarrow> (string \<Rightarrow> string) \<Rightarrow> string list \<Rightarrow> string list" where
  "pushIf t f parts = (case t of Some s \<Rightarrow> (if s \<noteq> [] then parts @ [f s] else parts) | None \<Rightarrow> parts)"

definition generateDescription :: "(string \<rightharpoonup> string) \<Rightarrow> string" where
  "generateDescription tags' =
     (let parts = [];
          parts = pushIf (tags' ''amenity'') (\<lambda>s. s) parts;
          parts = pushIf (tags' ''tourism'') (\<lambda>s. s) parts;
          parts = pushIf (tags' ''cuisine'') (\<lambda>s. ([CHR 0xE6, CHR 0x96, CHR 0x99,
            CHR 0xE7, CHR 0x90, CHR 0x86] @ '': '') @ s) parts;
          parts = pushIf (tags' ''shop'') (\<lambda>s. ([CHR 0xE5, CHR 0xBA, CHR 0x97, CHR 0xE8,
            CHR 0x88, CHR 0x97] @ '': '') @ s) parts
      in Array_join '' | '' parts)"

text \<open>\<open>extractAddress\<close>, lines 205-217.\<close>

definition extractAddress :: "(string \<rightharpoonup> string) \<Rightarrow> string" where
  "extractAddress tags' =
     (let addressParts = []
      in if truthy (tags' ''addr:full'') then orElse (tags' ''addr:full'') []
         else
           (let addressParts = pushIf (tags' ''addr:housenumber'') (\<lambda>s. s) addressParts;
                addressParts = pushIf (tags' ''addr:street'') (\<lambda>s. s) addressParts;
                addressParts = pushIf (tags' ''addr:city'') (\<lambda>s. s) addressParts
            in Array_join '' '' addressParts))"

text \<open>The object that \<open>detectChain\<close> returns.\<close>

record chainInfo =
  isChain :: bool
  chainName :: "string option"
  isMajorChain :: "bool option"

text \<open>\<open>isMajorChain\<close>, lines 283-293, with its list \<open>majorChains\<close>.\<close>

definition majorChains :: "string list" where
  "majorChains =
     [[CHR 0xE3, CHR 0x83, CHR 0x9E, CHR 0xE3, CHR 0x82, CHR 0xAF, CHR 0xE3, CHR 0x83, CHR 0x89,
       CHR 0xE3, CHR 0x83, CHR 0x8A, CHR 0xE3, CHR 0x83, CHR 0xAB, CHR 0xE3, CHR 0x83,
       CHR 0x89],
      ''McDonald'',
      [CHR 0xE6, CHR 0x9D, CHR 0xBE, CHR 0xE5, CHR 0xB1, CHR 0x8B],
      [CHR 0xE3, CHR 0x81, CHR 0x99, CHR 0xE3, CHR 0x81, CHR 0x8D, CHR 0xE5, CHR 0xAE,
        CHR 0xB6],
      [CHR 0xE3, CHR 0x82, CHR 0xAC, CHR 0xE3, CHR 0x82, CHR 0xB9, CHR 0xE3, CHR 0x83,
        CHR 0x88],
      ''Gusto'',
      [CHR 0xE3, CHR 0x82, CHR 0xB5, CHR 0xE3, CHR 0x82, CHR 0xA4, CHR 0xE3, CHR 0x82, CHR 0xBC,
        CHR 0xE3, CHR 0x83, CHR 0xAA, CHR 0xE3, CHR 0x83, CHR 0xA4],
      [CHR 0xE3, CHR 0x82, CHR 0xB1, CHR 0xE3, CHR 0x83, CHR 0xB3, CHR 0xE3, CHR 0x82, CHR 0xBF,
        CHR 0xE3, CHR 0x83, CHR 0x83, CHR 0xE3, CHR 0x82, CHR 0xAD, CHR 0xE3, CHR 0x83,
        CHR 0xBC],
      ''KFC'',
      [CHR 0xE3, CHR 0x83, CHR 0x90, CHR 0xE3, CHR 0x83, CHR 0xBC, CHR 0xE3, CHR 0x82, CHR 0xAC,
        CHR 0xE3, CHR 0x83, CHR 0xBC, CHR 0xE3, CHR 0x82, CHR 0xAD, CHR 0xE3, CHR 0x83,
        CHR 0xB3, CHR 0xE3, CHR 0x82, CHR 0xB0],
      ''Burger King'',
      [CHR 0xE3, CHR 0x82, CHR 0xBB, CHR 0xE3, CHR 0x83, CHR 0x96, CHR 0xE3, CHR 0x83,
        CHR 0xB3] @ ''-'' @ [CHR 0xE3, CHR 0x82, CHR 0xA4, CHR 0xE3, CHR 0x83, CHR 0xAC,
        CHR 0xE3, CHR 0x83, CHR 0x96, CHR 0xE3, CHR 0x83, CHR 0xB3],
      ''7-Eleven'',
      [CHR 0xE3, CHR 0x83, CHR 0x95, CHR 0xE3, CHR 0x82, CHR 0xA1, CHR 0xE3, CHR 0x83, CHR 0x9F,
        CHR 0xE3, CHR 0x83, CHR 0xAA, CHR 0xE3, CHR 0x83, CHR 0xBC, CHR 0xE3, CHR 0x83,
        CHR 0x9E, CHR 0xE3, CHR 0x83, CHR 0xBC, CHR 0xE3, CHR 0x83, CHR 0x88],
      ''FamilyMart'',
      [CHR 0xE3, CHR 0x83, CHR 0xAD, CHR 0xE3, CHR 0x83, CHR 0xBC, CHR 0xE3, CHR 0x82, CHR 0xBD,
        CHR 0xE3, CHR 0x83, CHR 0xB3],
      ''Lawson'',
      [CHR 0xE3, CHR 0x82, CHR 0xB3, CHR 0xE3, CHR 0x82, CHR 0xB3, CHR 0xE3, CHR 0x82,
        CHR 0xB9],
      ''COCO'' @ [CHR 0x27] @ ''S'',
      [CHR 0xE3, CHR 0x82, CHR 0xB8, CHR 0xE3, CHR 0x83, CHR 0xA7, CHR 0xE3, CHR 0x83, CHR 0x8A,
        CHR 0xE3, CHR 0x82, CHR 0xB5, CHR 0xE3, CHR 0x83, CHR 0xB3],
      [CHR 0xE3, CHR 0x83, CHR 0x87, CHR 0xE3, CHR 0x83, CHR 0x8B, CHR 0xE3, CHR 0x83, CHR 0xBC,
        CHR 0xE3, CHR 0x82, CHR 0xBA],
      ''Denny'' @ [CHR 0x27] @ ''s'',
      [CHR 0xE3, CHR 0x81, CHR 0xB3, CHR 0xE3, CHR 0x81, CHR 0xA3, CHR 0xE3, CHR 0x81, CHR 0x8F,
        CHR 0xE3, CHR 0x82, CHR 0x8A, CHR 0xE3, CHR 0x83, CHR 0x89, CHR 0xE3, CHR 0x83,
        CHR 0xB3, CHR 0xE3, CHR 0x82, CHR 0xAD, CHR 0xE3, CHR 0x83, CHR 0xBC],
      [CHR 0xE3, CHR 0x81, CHR 0xAF, CHR 0xE3, CHR 0x81, CHR 0xAA, CHR 0xE3, CHR 0x81, CHR 0xBE,
        CHR 0xE3, CHR 0x82, CHR 0x8B, CHR 0xE3, CHR 0x81, CHR 0x86, CHR 0xE3, CHR 0x81,
        CHR 0xA9, CHR 0xE3, CHR 0x82, CHR 0x93],
      [CHR 0xE4, CHR 0xB8, CHR 0xB8, CHR 0xE4, CHR 0xBA, CHR 0x80, CHR 0xE8, CHR 0xA3, CHR 0xBD,
        CHR 0xE9, CHR 0xBA, CHR 0xBA]]"

definition isMajorChain :: "string \<Rightarrow> bool" where
  "isMajorChain chainName' = list_ex (\<lambda>major. String_includes chainName' major) majorChains"

text \<open>
  \<open>detectChain\<close>, lines 255-280, with its list \<open>commonChains\<close>. The \<open>for\<close> loop returns at
  the first chain that the name includes.
\<close>

definition commonChains :: "string list" where
  "commonChains =
     [[CHR 0xE3, CHR 0x83, CHR 0x9E, CHR 0xE3, CHR 0x82, CHR 0xAF, CHR 0xE3, CHR 0x83, CHR 0x89,
       CHR 0xE3, CHR 0x83, CHR 0x8A, CHR 0xE3, CHR 0x83, CHR 0xAB, CHR 0xE3, CHR 0x83,
       CHR 0x89],
      ''McDonald'',
      [CHR 0xE3, CHR 0x82, CHR 0xB9, CHR 0xE3, CHR 0x82, CHR 0xBF, CHR 0xE3, CHR 0x83, CHR 0xBC,
        CHR 0xE3, CHR 0x83, CHR 0x90, CHR 0xE3, CHR 0x83, CHR 0x83, CHR 0xE3, CHR 0x82,
        CHR 0xAF, CHR 0xE3, CHR 0x82, CHR 0xB9],
      ''Starbucks'',
      [CHR 0xE3, CHR 0x82, CHR 0xBB, CHR 0xE3, CHR 0x83, CHR 0x96, CHR 0xE3, CHR 0x83,
        CHR 0xB3] @ ''-'' @ [CHR 0xE3, CHR 0x82, CHR 0xA4, CHR 0xE3, CHR 0x83, CHR 0xAC,
        CHR 0xE3, CHR 0x83, CHR 0x96, CHR 0xE3, CHR 0x83, CHR 0xB3],
      ''7-Eleven'',
      [CHR 0xE3, CHR 0x83, CHR 0x95, CHR 0xE3, CHR 0x82, CHR 0xA1, CHR 0xE3, CHR 0x83, CHR 0x9F,
        CHR 0xE3, CHR 0x83, CHR 0xAA, CHR 0xE3, CHR 0x83, CHR 0xBC, CHR 0xE3, CHR 0x83,
        CHR 0x9E, CHR 0xE3, CHR 0x83, CHR 0xBC, CHR 0xE3, CHR 0x83, CHR 0x88],
      ''FamilyMart'',
      [CHR 0xE3, CHR 0x83, CHR 0xAD, CHR 0xE3, CHR 0x83, CHR 0xBC, CHR 0xE3, CHR 0x82, CHR 0xBD,
        CHR 0xE3, CHR 0x83, CHR 0xB3],
      ''Lawson'',
      [CHR 0xE3, CHR 0x81, CHR 0x99, CHR 0xE3, CHR 0x81, CHR 0x8D, CHR 0xE5, CHR 0xAE,
        CHR 0xB6],
      [CHR 0xE6, CHR 0x9D, CHR 0xBE, CHR 0xE5, CHR 0xB1, CHR 0x8B],
      [CHR 0xE3, CHR 0x82, CHR 0xAC, CHR 0xE3, CHR 0x82, CHR 0xB9, CHR 0xE3, CHR 0x83,
        CHR 0x88],
      ''Gusto'',
      [CHR 0xE3, CHR 0x82, CHR 0xB5, CHR 0xE3, CHR 0x82, CHR 0xA4, CHR 0xE3, CHR 0x82, CHR 0xBC,
        CHR 0xE3, CHR 0x83, CHR 0xAA, CHR 0xE3, CHR 0x83, CHR 0xA4],
      [CHR 0xE3, CHR 0x83, CHR 0x89, CHR 0xE3, CHR 0x83, CHR 0x88, CHR 0xE3, CHR 0x83, CHR 0xBC,
        CHR 0xE3, CHR 0x83, CHR 0xAB],
      ''Doutor'',
      [CHR 0xE3, CHR 0x82, CHR 0xBF, CHR 0xE3, CHR 0x83, CHR 0xAA, CHR 0xE3, CHR 0x83, CHR 0xBC,
        CHR 0xE3, CHR 0x82, CHR 0xBA],
      ''Tully'' @ [CHR 0x27] @ ''s'',
      [CHR 0xE3, CHR 0x82, CHR 0xB1, CHR 0xE3, CHR 0x83, CHR 0xB3, CHR 0xE3, CHR 0x82, CHR 0xBF,
        CHR 0xE3, CHR 0x83, CHR 0x83, CHR 0xE3, CHR 0x82, CHR 0xAD, CHR 0xE3, CHR 0x83,
        CHR 0xBC],
      ''KFC'',
      [CHR 0xE3, CHR 0x83, CHR 0x90, CHR 0xE3, CHR 0x83, CHR 0xBC, CHR 0xE3, CHR 0x82, CHR 0xAC,
        CHR 0xE3, CHR 0x83, CHR 0xBC, CHR 0xE3, CHR 0x82, CHR 0xAD, CHR 0xE3, CHR 0x83,
        CHR 0xB3, CHR 0xE3, CHR 0x82, CHR 0xB0],
      ''Burger King'',
      [CHR 0xE3, CHR 0x83, CHR 0xA2, CHR 0xE3, CHR 0x82, CHR 0xB9, CHR 0xE3, CHR 0x83, CHR 0x90,
        CHR 0xE3, CHR 0x83, CHR 0xBC, CHR 0xE3, CHR 0x82, CHR 0xAC, CHR 0xE3, CHR 0x83,
        CHR 0xBC],
      ''MOS BURGER'',
      [CHR 0xE3, CHR 0x82, CHR 0xB3, CHR 0xE3, CHR 0x82, CHR 0xB3, CHR 0xE3, CHR 0x82,
        CHR 0xB9],
      ''COCO'' @ [CHR 0x27] @ ''S'',
      [CHR 0xE3, CHR 0x82, CHR 0xB8, CHR 0xE3, CHR 0x83, CHR 0xA7, CHR 0xE3, CHR 0x83, CHR 0x8A,
        CHR 0xE3, CHR 0x82, CHR 0xB5, CHR 0xE3, CHR 0x83, CHR 0xB3],
      [CHR 0xE3, CHR 0x83, CHR 0x87, CHR 0xE3, CHR 0x83, CHR 0x8B, CHR 0xE3, CHR 0x83, CHR 0xBC,
        CHR 0xE3, CHR 0x82, CHR 0xBA],
      ''Denny'' @ [CHR 0x27] @ ''s'',
      [CHR 0xE3, CHR 0x81, CHR 0xB3, CHR 0xE3, CHR 0x81, CHR 0xA3, CHR 0xE3, CHR 0x81, CHR 0x8F,
        CHR 0xE3, CHR 0x82, CHR 0x8A, CHR 0xE3, CHR 0x83, CHR 0x89, CHR 0xE3, CHR 0x83,
        CHR 0xB3, CHR 0xE3, CHR 0x82, CHR 0xAD, CHR 0xE3, CHR 0x83, CHR 0xBC],
      [CHR 0xE3, CHR 0x81, CHR 0xAF, CHR 0xE3, CHR 0x81, CHR 0xAA, CHR 0xE3, CHR 0x81, CHR 0xBE,
        CHR 0xE3, CHR 0x82, CHR 0x8B, CHR 0xE3, CHR 0x81, CHR 0x86, CHR 0xE3, CHR 0x81,
        CHR 0xA9, CHR 0xE3, CHR 0x82, CHR 0x93],
      [CHR 0xE4, CHR 0xB8, CHR 0xB8, CHR 0xE4, CHR 0xBA, CHR 0x80, CHR 0xE8, CHR 0xA3, CHR 0xBD,
        CHR 0xE9, CHR 0xBA, CHR 0xBA],
      [CHR 0xE3, CHR 0x82, CHR 0x84, CHR 0xE3, CHR 0x82, CHR 0x88, CHR 0xE3, CHR 0x81, CHR 0x84,
        CHR 0xE8, CHR 0xBB, CHR 0x92],
      [CHR 0xE5, CHR 0xA4, CHR 0xA7, CHR 0xE6, CHR 0x88, CHR 0xB8, CHR 0xE5, CHR 0xB1,
        CHR 0x8B]]"

definition detectChain :: "(string \<rightharpoonup> string) \<Rightarrow> chainInfo" where
  "detectChain tags' =
     (if truthy (tags' ''brand'') then
        \<lparr>chainInfo.isChain = True, chainInfo.chainName = tags' ''brand'',
         chainInfo.isMajorChain = Some (isMajorChain (orElse (tags' ''brand'') []))\<rparr>
      else if truthy (tags' ''operator'') then
        \<lparr>chainInfo.isChain = True, chainInfo.chainName = tags' ''operator'',
         chainInfo.isMajorChain = Some (isMajorChain (orElse (tags' ''operator'') []))\<rparr>
      else
        (let name' = orElse (tags' ''name'') []
         in case find (\<lambda>chain. String_includes name' chain) commonChains of
              Some chain \<Rightarrow>
                \<lparr>chainInfo.isChain = True, chainInfo.chainName = Some chain,
                 chainInfo.isMajorChain = Some (isMajorChain chain)\<rparr>
            | None \<Rightarrow>
                \<lparr>chainInfo.isChain = False, chainInfo.chainName = None,
                 chainInfo.isMajorChain = Some False\<rparr>))"

text \<open>
  \<open>convertToSpots\<close>, lines 157-180: the elements with a name, each one made a spot. The
  fields \<open>rating\<close>, \<open>stars\<close>, \<open>distanceFromRoute\<close> and \<open>debugInfo\<close> are not set.
\<close>

definition convertToSpots :: "overpassElement list \<Rightarrow> spot list" where
  "convertToSpots elements =
     map (\<lambda>element.
            let chainInfo = detectChain (tags element)
            in \<lparr>spot.id' = overpassElement.type' element @ ''_'' @ showInt (overpassElement.id' element),
                spot.name = orElse (tags element ''name'') ''Unknown'',
                spot.lat = overpassElement.lat element,
                spot.lng = overpassElement.lon element,
                spot.type' =
                  orElse (tags element ''amenity'')
                    (orElse (tags element ''tourism'') (orElse (tags element ''shop'') ''other'')),
                spot.category = determineCategory (tags element),
                spot.description = Some (generateDescription (tags element)),
                spot.address = Some (extractAddress (tags element)),
                spot.phone = tags element ''phone'',
                spot.website = tags element ''website'',
                spot.openingHours = tags element ''opening_hours'',
                spot.cuisine = tags element ''cuisine'',
                spot.rating = None,
                spot.isChain = Some (chainInfo.isChain chainInfo),
                spot.chainName = chainInfo.chainName chainInfo,
                spot.isMajorChain = chainInfo.isMajorChain chainInfo,
                spot.stars = None,
                spot.distanceFromRoute = None,
                spot.debugInfo = None\<rparr>)
         (filter (\<lambda>element. truthy (tags element ''name'')) elements)"

section \<open>Rating (\<open>services/overpassService.ts\<close>)\<close>

text \<open>
  \<open>calculateDistanceFromRoute\<close>, lines 296-306: the distance of a point to the line through
  start and end, in degrees times 111. The divisor is zero when start and end coincide.
\<close>

definition calculateDistanceFromRoute :: "point \<Rightarrow> point \<Rightarrow> point \<Rightarrow> jsnumber" where
  "calculateDistanceFromRoute spot startPoint endPoint =
     (let A = point.lat endPoint - point.lat startPoint;
          B = point.lng startPoint - point.lng endPoint;
          C = point.lng endPoint * point.lat startPoint - point.lng startPoint * point.lat endPoint;
          distance = js_divide \<bar>A * point.lng spot + B * point.lat spot + C\<bar> (sqrt (A * A + B * B))
      in js_times distance 111)"

text \<open>\<open>isBackward\<close>, lines 309-350.\<close>

definition isBackward :: "point \<Rightarrow> point \<Rightarrow> point \<Rightarrow> bool" where
  "isBackward spot startPoint endPoint =
     (let routeVector_lat = point.lat endPoint - point.lat startPoint;
          routeVector_lng = point.lng endPoint - point.lng startPoint;
          spotVector_lat = point.lat spot - point.lat startPoint;
          spotVector_lng = point.lng spot - point.lng startPoint;
          dotProduct = routeVector_lat * spotVector_lat + routeVector_lng * spotVector_lng;
          routeLengthSq = routeVector_lat * routeVector_lat + routeVector_lng * routeVector_lng
      in if dotProduct < 0 then
           (let spotLengthSq = spotVector_lat * spotVector_lat + spotVector_lng * spotVector_lng;
                backwardThreshold = routeLengthSq * 0.04
            in spotLengthSq > backwardThreshold)
         else
           (let endToSpotVector_lat = point.lat spot - point.lat endPoint;
                endToSpotVector_lng = point.lng spot - point.lng endPoint;
                endBackwardDot =
                  routeVector_lat * endToSpotVector_lat + routeVector_lng * endToSpotVector_lng
            in if endBackwardDot > 0 then
                 (let endSpotLengthSq = endToSpotVector_lat * endToSpotVector_lat +
                        endToSpotVector_lng * endToSpotVector_lng;
                      endBackwardThreshold = routeLengthSq * 0.04
                  in endSpotLengthSq > endBackwardThreshold)
               else False))"

text \<open>
  \<open>calculateSpotRating\<close>, lines 353-432. The three local variables \<open>score\<close>,
  \<open>penaltyCount\<close> and \<open>debugInfo\<close> are one triple; \<open>penalty\<close> is the block
  \<open>score -= points; penaltyCount++; debugInfo += text\<close> of every penalty. A local
  variable that has the name of a field is written with a prime.
  \<open>calculateSpotRating_penalties\<close> is the function from line 364 to line 416, which
  leaves the final values of the three variables; \<open>calculateSpotRating\<close> is the whole
  function.
\<close>

type_synonym ratingVars = "real \<times> nat \<times> string"

definition score_of :: "ratingVars \<Rightarrow> real" where
  "score_of vars = fst vars"

definition penalty :: "real \<Rightarrow> string \<Rightarrow> ratingVars \<Rightarrow> ratingVars" where
  "penalty points text' vars =
     (case vars of (score, penaltyCount, debugInfo') \<Rightarrow>
        (score - points, penaltyCount + 1, debugInfo' @ text'))"

definition calculateSpotRating_penalties :: "spot \<Rightarrow> point \<Rightarrow> point \<Rightarrow> ratingVars" where
  "calculateSpotRating_penalties spot startPoint endPoint =
     (let vars = (100, 0, ([CHR 0xE5, CHR 0x9F, CHR 0xBA, CHR 0xE6, CHR 0x9C,
       CHR 0xAC] @ ''100'' @ [CHR 0xE7, CHR 0x82, CHR 0xB9]));
          isBackward' = isBackward (spotPoint spot) startPoint endPoint;
          vars = (if isBackward' then penalty 40 ('', '' @ [CHR 0xE7, CHR 0xB5, CHR 0x8C,
            CHR 0xE8, CHR 0xB7, CHR 0xAF, CHR 0xE9, CHR 0x80, CHR 0x86, CHR 0xE8, CHR 0xB5,
            CHR 0xB0] @ ''-40'' @ [CHR 0xE7, CHR 0x82, CHR 0xB9]) vars else vars);
          distanceFromRoute' = orZero (spot.distanceFromRoute spot);
          vars =
            (if js_greater distanceFromRoute' 2.5 then
               penalty 30
                 (('', '' @ [CHR 0xE3, CHR 0x83, CHR 0xAB, CHR 0xE3, CHR 0x83, CHR 0xBC,
                   CHR 0xE3, CHR 0x83, CHR 0x88, CHR 0xE9, CHR 0x81, CHR 0xA0, CHR 0xE3,
                   CHR 0x81,
                   CHR 0x84] @ ''('') @ toFixed_jsnumber 2 distanceFromRoute' @ (''km)-30'' @ [CHR 0xE7,
                   CHR 0x82, CHR 0xB9])) vars
             else if js_greater distanceFromRoute' 1.8 then
               penalty 20 ('', '' @ [CHR 0xE3, CHR 0x83, CHR 0xAB, CHR 0xE3, CHR 0x83, CHR 0xBC,
                 CHR 0xE3, CHR 0x83, CHR 0x88, CHR 0xE3, CHR 0x82, CHR 0x84, CHR 0xE3, CHR 0x82,
                 CHR 0x84, CHR 0xE9, CHR 0x81, CHR 0xA0, CHR 0xE3, CHR 0x81,
                 CHR 0x84] @ ''-20'' @ [CHR 0xE7, CHR 0x82, CHR 0xB9]) vars
             else vars);
          vars = (if truthyFlag (spot.isChain spot)
                  then penalty 20 ('', '' @ [CHR 0xE4, CHR 0xB8, CHR 0x80, CHR 0xE8, CHR 0x88,
                    CHR 0xAC, CHR 0xE3, CHR 0x83, CHR 0x81, CHR 0xE3, CHR 0x82, CHR 0xA7,
                    CHR 0xE3, CHR 0x83, CHR 0xBC, CHR 0xE3, CHR 0x83, CHR 0xB3, CHR 0xE5,
                    CHR 0xBA, CHR 0x97] @ ''-20'' @ [CHR 0xE7, CHR 0x82,
                    CHR 0xB9]) vars else vars);
          distanceFromStart = calculateDistance (spotPoint spot) startPoint;
          vars =
            (if distanceFromStart \<le> 0.3 then
               penalty 25 (('', '' @ [CHR 0xE5, CHR 0x87, CHR 0xBA, CHR 0xE7, CHR 0x99,
                 CHR 0xBA, CHR 0xE5, CHR 0x9C, CHR 0xB0, CHR 0xE8, CHR 0xBF, CHR 0x91, CHR 0xE3,
                 CHR 0x81, CHR 0x99, CHR 0xE3, CHR 0x81,
                 CHR 0x8E] @ ''('') @ toFixed 2 distanceFromStart @ (''km)-25'' @ [CHR 0xE7,
                 CHR 0x82, CHR 0xB9])) vars
             else vars);
          vars = (if \<not> truthy (spot.openingHours spot)
                  then penalty 10 ('', '' @ [CHR 0xE5, CHR 0x96, CHR 0xB6, CHR 0xE6, CHR 0xA5,
                    CHR 0xAD, CHR 0xE6, CHR 0x99, CHR 0x82, CHR 0xE9, CHR 0x96, CHR 0x93,
                    CHR 0xE3, CHR 0x81, CHR 0xAA, CHR 0xE3, CHR 0x81,
                    CHR 0x97] @ ''-10'' @ [CHR 0xE7, CHR 0x82, CHR 0xB9]) vars else vars);
          vars = (if \<not> truthy (spot.phone spot)
                  then penalty 10 ('', '' @ [CHR 0xE9, CHR 0x9B, CHR 0xBB, CHR 0xE8, CHR 0xA9,
                    CHR 0xB1, CHR 0xE3, CHR 0x81, CHR 0xAA, CHR 0xE3, CHR 0x81,
                    CHR 0x97] @ ''-10'' @ [CHR 0xE7, CHR 0x82, CHR 0xB9]) vars else vars);
          vars = (if \<not> truthy (spot.website spot)
                  then penalty 10 ('', '' @ [CHR 0xE3, CHR 0x82, CHR 0xB5, CHR 0xE3, CHR 0x82,
                    CHR 0xA4, CHR 0xE3, CHR 0x83, CHR 0x88, CHR 0xE3, CHR 0x81, CHR 0xAA,
                    CHR 0xE3, CHR 0x81, CHR 0x97] @ ''-10'' @ [CHR 0xE7, CHR 0x82,
                    CHR 0xB9]) vars else vars)
      in vars)"

record spotRating =
  stars :: nat
  debugInfo :: string

definition calculateSpotRating :: "spot \<Rightarrow> point \<Rightarrow> point \<Rightarrow> spotRating" where
  "calculateSpotRating spot startPoint endPoint =
     (if truthyFlag (spot.isMajorChain spot) then
        \<lparr>spotRating.stars = 1, spotRating.debugInfo = ([CHR 0xE6, CHR 0x9C, CHR 0x89,
          CHR 0xE5, CHR 0x90, CHR 0x8D, CHR 0xE3, CHR 0x83, CHR 0x81, CHR 0xE3, CHR 0x82,
          CHR 0xA7, CHR 0xE3, CHR 0x83, CHR 0xBC, CHR 0xE3, CHR 0x83, CHR 0xB3, CHR 0xE5,
          CHR 0xBA, CHR 0x97] @ '' '' @ [CHR 0xE2, CHR 0x86, CHR 0x92] @ '' '' @ [CHR 0xE2,
          CHR 0x98, CHR 0x85] @ ''1'')\<rparr>
      else
        (case calculateSpotRating_penalties spot startPoint endPoint of
           (score, penaltyCount, debugInfo') \<Rightarrow>
             (let stars' = (if score \<ge> 70 then 3 else if score \<ge> 30 then 2 else 1);
                  finalDebugInfo =
                    debugInfo' @ '' = '' @ toFixed 1 score @ ([CHR 0xE7, CHR 0x82,
                      CHR 0xB9] @ '' '' @ [CHR 0xE2, CHR 0x86, CHR 0x92] @ '' '' @ [CHR 0xE2,
                      CHR 0x98, CHR 0x85]) @ showNat stars'
              in \<lparr>spotRating.stars = stars', spotRating.debugInfo = finalDebugInfo\<rparr>)))"

text \<open>\<open>addRatingsToSpots\<close>, lines 435-451.\<close>

definition addRatingsToSpots :: "spot list \<Rightarrow> point \<Rightarrow> point \<Rightarrow> spot list" where
  "addRatingsToSpots spots startPoint endPoint =
     map (\<lambda>spot.
            let distanceFromRoute' = calculateDistanceFromRoute (spotPoint spot) startPoint endPoint;
                updatedSpot = spot\<lparr>spot.distanceFromRoute := Some distanceFromRoute'\<rparr>;
                rating' = calculateSpotRating updatedSpot startPoint endPoint
            in updatedSpot\<lparr>spot.stars := Some (spotRating.stars rating'),
                            spot.debugInfo := Some (spotRating.debugInfo rating')\<rparr>)
         spots"

section \<open>Random selection (\<open>services/overpassService.ts\<close>)\<close>

text \<open>
  \<open>Math.random()\<close> is made explicit: a source of random numbers gives the result of its
  \<open>n\<close>-th call, and every function that draws takes the number of calls made so far and
  returns the new one. The library promises \<open>0 \<le> Math.random() < 1\<close>; \<open>randomInRange\<close>
  says so of a source.
\<close>

type_synonym randomSource = "nat \<Rightarrow> real"

definition randomInRange :: "randomSource \<Rightarrow> bool" where
  "randomInRange rand = (\<forall>n. 0 \<le> rand n \<and> rand n < 1)"

text \<open>
  The Fisher-Yates loop of lines 459-462 and 475-478: \<open>i\<close> runs from
  \<open>shuffled.length - 1\<close> down while \<open>i > 0\<close>; each round draws \<open>j\<close> and swaps the
  entries \<open>i\<close> and \<open>j\<close>. For a number drawn in \<open>[0, 1)\<close> the index \<open>j\<close> is at most
  \<open>i\<close>, so both entries exist; the statements about the loop have \<open>randomInRange\<close> as
  their hypothesis.
\<close>

fun shuffleLoop :: "randomSource \<Rightarrow> nat \<Rightarrow> 'a list \<Rightarrow> nat \<Rightarrow> 'a list \<times> nat" where
  "shuffleLoop rand calls shuffled 0 = (shuffled, calls)"
| "shuffleLoop rand calls shuffled (Suc i') =
     (let i = Suc i';
          j = nat \<lfloor>rand calls * (real i + 1)\<rfloor>;
          shuffled = shuffled[i := shuffled ! j, j := shuffled ! i]
      in shuffleLoop rand (calls + 1) shuffled i')"

text \<open>\<open>selectRandomMidPoints\<close>, lines 454-467.\<close>

definition selectRandomMidPoints :: "randomSource \<Rightarrow> nat \<Rightarrow> point list \<Rightarrow> nat \<Rightarrow> point list \<times> nat" where
  "selectRandomMidPoints rand calls midPoints count' =
     (if length midPoints \<le> count' then (midPoints, calls)
      else
        (case shuffleLoop rand calls midPoints (length midPoints - 1) of
           (shuffled, calls) \<Rightarrow>
             (let selected = take count' shuffled
              in (selected, calls))))"

text \<open>\<open>selectRandomSpotsWithoutRating\<close>, lines 470-483.\<close>

definition selectRandomSpotsWithoutRating :: "randomSource \<Rightarrow> nat \<Rightarrow> spot list \<Rightarrow> nat \<Rightarrow> spot list \<times> nat" where
  "selectRandomSpotsWithoutRating rand calls spots count' =
     (if length spots \<le> count' then (spots, calls)
      else
        (case shuffleLoop rand calls spots (length spots - 1) of
           (shuffled, calls) \<Rightarrow>
             (let selected = take count' shuffled
              in (selected, calls))))"

section \<open>The application (\<open>App.tsx\<close>)\<close>

subsection \<open>The data source\<close>

text \<open>
  \<open>searchSpots\<close> (\<open>overpassService.ts\<close>, lines 8-40) computes a bounding box from the
  middle point and the radius, writes the query text from the box and the category, and
  posts it with \<open>fetch\<close>. What comes back is not decided by the program: the data source
  is a parameter that gives, for the number of the call and for the middle point, radius
  and category that determine the request, the outcome of \<open>fetch\<close>: the promise is
  rejected (transport failure), or it resolves to a response with a status and a body;
  the body is \<open>None\<close> when \<open>response.json()\<close> is rejected, and otherwise the \<open>elements\<close>
  of the parsed data. \<open>response.ok\<close> is true for a status from 200 to 299.
\<close>

datatype fetchResult = Rejected | Resolved nat "overpassElement list option"

type_synonym dataSource = "nat \<Rightarrow> point \<Rightarrow> real \<Rightarrow> category \<Rightarrow> fetchResult"

datatype error = FetchRejected | OverpassApiError nat | JsonRejected

text \<open>
  \<open>searchSpots\<close>: an exception of the \<open>try\<close> block is logged and thrown again, so the
  caller sees it (\<open>Inl\<close>); otherwise the caller gets the spots (\<open>Inr\<close>).
\<close>

definition searchSpots :: "dataSource \<Rightarrow> nat \<Rightarrow> point \<Rightarrow> point \<Rightarrow> real \<Rightarrow> category \<Rightarrow> error + spot list" where
  "searchSpots source call startPoint endPoint radius category' =
     (let midPoint = calculateMidPoint startPoint endPoint
      in case source call midPoint radius category' of
           Rejected \<Rightarrow> Inl FetchRejected
         | Resolved status body \<Rightarrow>
             (if \<not> (200 \<le> status \<and> status \<le> 299) then Inl (OverpassApiError status)
              else (case body of
                      None \<Rightarrow> Inl JsonRejected
                    | Some elements \<Rightarrow> Inr (convertToSpots elements))))"

subsection \<open>State\<close>

text \<open>
  The state of \<open>App\<close> that the handlers read and write (lines 10-23), and the notifications
  they show: \<open>toasts\<close> is the list of the calls of \<open>toast.info\<close>, \<open>toast.success\<close>,
  \<open>toast.warning\<close> and \<open>toast.error\<close> so far.
\<close>

datatype toastKind = ToastInfo | ToastSuccess | ToastWarning | ToastError

datatype toast = Toast toastKind string

record appState =
  startPoint :: "point option"
  endPoint :: "point option"
  gachaSpots :: "spot list"
  allGachaHistory :: "spot list"
  isLoading :: bool
  selectedCategory :: category
  gachaStartTime :: "int option"
  gachaElapsedTime :: int
  toasts :: "toast list"

definition showToast :: "toastKind \<Rightarrow> string \<Rightarrow> appState \<Rightarrow> appState" where
  "showToast kind message state = state\<lparr>toasts := toasts state @ [Toast kind message]\<rparr>"

text \<open>The state with which \<open>App\<close> starts: the route from Shinjuku to Shibuya is set.\<close>

definition initialState :: appState where
  "initialState =
     \<lparr>startPoint = Some \<lparr>point.lat = 35.6896, point.lng = 139.6917,
       point.name = Some [CHR 0xE6, CHR 0x96, CHR 0xB0, CHR 0xE5, CHR 0xAE, CHR 0xBF, CHR 0xE9,
       CHR 0xA7, CHR 0x85]\<rparr>,
      endPoint = Some \<lparr>point.lat = 35.6580, point.lng = 139.7016,
        point.name = Some [CHR 0xE6, CHR 0xB8, CHR 0x8B, CHR 0xE8, CHR 0xB0, CHR 0xB7, CHR 0xE9,
        CHR 0xA7, CHR 0x85]\<rparr>,
      gachaSpots = [],
      allGachaHistory = [],
      isLoading = False,
      selectedCategory = Restaurant,
      gachaStartTime = None,
      gachaElapsedTime = 0,
      toasts = []\<rparr>"

subsection \<open>Map clicks and reset\<close>

text \<open>\<open>handleMapClick\<close>, lines 118-131.\<close>

definition handleMapClick :: "real \<Rightarrow> real \<Rightarrow> appState \<Rightarrow> appState" where
  "handleMapClick lat' lng' state =
     (let point = \<lparr>point.lat = lat', point.lng = lng',
                    point.name = Some (toFixed 4 lat' @ '', '' @ toFixed 4 lng')\<rparr>
      in if startPoint state = None then
           showToast ToastInfo ([CHR 0xF0, CHR 0x9F, CHR 0x93, CHR 0x8D] @ '' '' @ [CHR 0xE5,
             CHR 0x87, CHR 0xBA, CHR 0xE7, CHR 0x99, CHR 0xBA, CHR 0xE5, CHR 0x9C, CHR 0xB0,
             CHR 0xE3, CHR 0x82, CHR 0x92, CHR 0xE8, CHR 0xA8, CHR 0xAD, CHR 0xE5, CHR 0xAE,
             CHR 0x9A, CHR 0xE3, CHR 0x81, CHR 0x97, CHR 0xE3, CHR 0x81, CHR 0xBE, CHR 0xE3,
             CHR 0x81, CHR 0x97, CHR 0xE3, CHR 0x81, CHR 0x9F, CHR 0xE3, CHR 0x80, CHR 0x82,
             CHR 0xE6, CHR 0xAC, CHR 0xA1, CHR 0xE3, CHR 0x81, CHR 0xAB, CHR 0xE7, CHR 0x9B,
             CHR 0xAE, CHR 0xE7, CHR 0x9A, CHR 0x84, CHR 0xE5, CHR 0x9C, CHR 0xB0, CHR 0xE3,
             CHR 0x82, CHR 0x92, CHR 0xE3, CHR 0x82, CHR 0xAF, CHR 0xE3, CHR 0x83, CHR 0xAA,
             CHR 0xE3, CHR 0x83, CHR 0x83, CHR 0xE3, CHR 0x82, CHR 0xAF, CHR 0xE3, CHR 0x81,
             CHR 0x97, CHR 0xE3, CHR 0x81, CHR 0xA6, CHR 0xE3, CHR 0x81, CHR 0x8F, CHR 0xE3,
             CHR 0x81, CHR 0xA0, CHR 0xE3, CHR 0x81, CHR 0x95, CHR 0xE3, CHR 0x81, CHR 0x84,
             CHR 0xE3, CHR 0x80, CHR 0x82]) (state\<lparr>startPoint := Some point\<rparr>)
         else if endPoint state = None then
           showToast ToastSuccess ([CHR 0xF0, CHR 0x9F, CHR 0x8F, CHR 0x81] @ '' '' @ [CHR 0xE7,
             CHR 0x9B, CHR 0xAE, CHR 0xE7, CHR 0x9A, CHR 0x84, CHR 0xE5, CHR 0x9C, CHR 0xB0,
             CHR 0xE3, CHR 0x82, CHR 0x92, CHR 0xE8, CHR 0xA8, CHR 0xAD, CHR 0xE5, CHR 0xAE,
             CHR 0x9A, CHR 0xE3, CHR 0x81, CHR 0x97, CHR 0xE3, CHR 0x81, CHR 0xBE, CHR 0xE3,
             CHR 0x81, CHR 0x97, CHR 0xE3, CHR 0x81, CHR 0x9F, CHR 0xE3, CHR 0x80, CHR 0x82,
             CHR 0xE3, CHR 0x82, CHR 0xAC, CHR 0xE3, CHR 0x83, CHR 0x81, CHR 0xE3, CHR 0x83,
             CHR 0xA3, CHR 0xE3, CHR 0x83, CHR 0x9C, CHR 0xE3, CHR 0x82, CHR 0xBF, CHR 0xE3,
             CHR 0x83, CHR 0xB3, CHR 0xE3, CHR 0x82, CHR 0x92, CHR 0xE6, CHR 0x8A, CHR 0xBC,
             CHR 0xE3, CHR 0x81, CHR 0x97, CHR 0xE3, CHR 0x81, CHR 0xA6, CHR 0xE3, CHR 0x82,
             CHR 0xB9, CHR 0xE3, CHR 0x83, CHR 0x9D, CHR 0xE3, CHR 0x83, CHR 0x83, CHR 0xE3,
             CHR 0x83, CHR 0x88, CHR 0xE3, CHR 0x82, CHR 0x92, CHR 0xE7, CHR 0x99, CHR 0xBA,
             CHR 0xE8, CHR 0xA6, CHR 0x8B, CHR 0xE3, CHR 0x81, CHR 0x97, CHR 0xE3, CHR 0x81,
             CHR 0xBE, CHR 0xE3, CHR 0x81, CHR 0x97, CHR 0xE3, CHR 0x82, CHR 0x87, CHR 0xE3,
             CHR 0x81, CHR 0x86, CHR 0xEF, CHR 0xBC,
             CHR 0x81]) (state\<lparr>endPoint := Some point\<rparr>)
         else
           showToast ToastWarning ([CHR 0xE2, CHR 0x9A, CHR 0xA0, CHR 0xEF, CHR 0xB8,
             CHR 0x8F] @ '' '' @ [CHR 0xE5, CHR 0x87, CHR 0xBA, CHR 0xE7, CHR 0x99, CHR 0xBA,
             CHR 0xE5, CHR 0x9C, CHR 0xB0, CHR 0xE3, CHR 0x81, CHR 0xA8, CHR 0xE7, CHR 0x9B,
             CHR 0xAE, CHR 0xE7, CHR 0x9A, CHR 0x84, CHR 0xE5, CHR 0x9C, CHR 0xB0, CHR 0xE3,
             CHR 0x81, CHR 0x8C, CHR 0xE8, CHR 0xA8, CHR 0xAD, CHR 0xE5, CHR 0xAE, CHR 0x9A,
             CHR 0xE6, CHR 0xB8, CHR 0x88, CHR 0xE3, CHR 0x81, CHR 0xBF, CHR 0xE3, CHR 0x81,
             CHR 0xA7, CHR 0xE3, CHR 0x81, CHR 0x99, CHR 0xE3, CHR 0x80, CHR 0x82, CHR 0xE5,
             CHR 0xA4, CHR 0x89, CHR 0xE6, CHR 0x9B, CHR 0xB4, CHR 0xE3, CHR 0x81, CHR 0x99,
             CHR 0xE3, CHR 0x82, CHR 0x8B, CHR 0xE3, CHR 0x81, CHR 0xAB, CHR 0xE3, CHR 0x81,
             CHR 0xAF, CHR 0xE3, CHR 0x83, CHR 0xAA, CHR 0xE3, CHR 0x82, CHR 0xBB, CHR 0xE3,
             CHR 0x83, CHR 0x83, CHR 0xE3, CHR 0x83, CHR 0x88, CHR 0xE3, CHR 0x83, CHR 0x9C,
             CHR 0xE3, CHR 0x82, CHR 0xBF, CHR 0xE3, CHR 0x83, CHR 0xB3, CHR 0xE3, CHR 0x82,
             CHR 0x92, CHR 0xE6, CHR 0x8A, CHR 0xBC, CHR 0xE3, CHR 0x81, CHR 0x97, CHR 0xE3,
             CHR 0x81, CHR 0xA6, CHR 0xE3, CHR 0x81, CHR 0x8F, CHR 0xE3, CHR 0x81, CHR 0xA0,
             CHR 0xE3, CHR 0x81, CHR 0x95, CHR 0xE3, CHR 0x81, CHR 0x84, CHR 0xE3, CHR 0x80,
             CHR 0x82]) state)"

text \<open>
  \<open>handleReset\<close>, lines 134-144. The notification is shown by a timer 100 ms later; the
  delay is not part of the model.
\<close>

definition handleReset :: "appState \<Rightarrow> appState" where
  "handleReset state =
     showToast ToastInfo ([CHR 0xF0, CHR 0x9F, CHR 0x9A, CHR 0xA9] @ '' '' @ [CHR 0xE5,
       CHR 0x9C, CHR 0xB0, CHR 0xE5, CHR 0x9B, CHR 0xB3, CHR 0xE3, CHR 0x82, CHR 0x92, CHR 0xE3,
       CHR 0x82, CHR 0xAF, CHR 0xE3, CHR 0x83, CHR 0xAA, CHR 0xE3, CHR 0x83, CHR 0x83, CHR 0xE3,
       CHR 0x82, CHR 0xAF, CHR 0xE3, CHR 0x81, CHR 0x97, CHR 0xE3, CHR 0x81, CHR 0xA6, CHR 0xE5,
       CHR 0x87, CHR 0xBA, CHR 0xE7, CHR 0x99, CHR 0xBA, CHR 0xE5, CHR 0x9C, CHR 0xB0, CHR 0xE3,
       CHR 0x82, CHR 0x92, CHR 0xE8, CHR 0xA8, CHR 0xAD, CHR 0xE5, CHR 0xAE, CHR 0x9A, CHR 0xE3,
       CHR 0x81, CHR 0x97, CHR 0xE3, CHR 0x81, CHR 0xA6, CHR 0xE3, CHR 0x81, CHR 0x8F, CHR 0xE3,
       CHR 0x81, CHR 0xA0, CHR 0xE3, CHR 0x81, CHR 0x95, CHR 0xE3, CHR 0x81, CHR 0x84, CHR 0xE3,
       CHR 0x80, CHR 0x82])
       (state\<lparr>startPoint := None, endPoint := None, gachaSpots := [], allGachaHistory := []\<rparr>)"

subsection \<open>A roll\<close>

text \<open>
  The loop of lines 73-81 over the selected points: the spots of a point are appended to
  \<open>allSpots\<close>; an exception of \<open>searchSpots\<close> is caught, logged, and the loop goes on.
  \<open>call\<close> counts the requests.
\<close>

fun fetchLoop :: "dataSource \<Rightarrow> nat \<Rightarrow> real \<Rightarrow> category \<Rightarrow> point list \<Rightarrow> spot list \<Rightarrow> spot list" where
  "fetchLoop source call searchRadius category' [] allSpots = allSpots"
| "fetchLoop source call searchRadius category' (midPoint # rest) allSpots =
     (case searchSpots source call midPoint midPoint searchRadius category' of
        Inr spots \<Rightarrow> fetchLoop source (call + 1) searchRadius category' rest (allSpots @ spots)
      | Inl error \<Rightarrow> fetchLoop source (call + 1) searchRadius category' rest allSpots)"

text \<open>
  \<open>Array.prototype.findIndex\<close> (the first index whose entry satisfies the predicate, or
  \<open>-1\<close>) and \<open>Array.prototype.filter\<close> with a callback of entry, index and array.
\<close>

fun findIndexFrom :: "('a \<Rightarrow> bool) \<Rightarrow> 'a list \<Rightarrow> int \<Rightarrow> int" where
  "findIndexFrom predicate [] i = - 1"
| "findIndexFrom predicate (x # xs) i = (if predicate x then i else findIndexFrom predicate xs (i + 1))"

definition Array_findIndex :: "('a \<Rightarrow> bool) \<Rightarrow> 'a list \<Rightarrow> int" where
  "Array_findIndex predicate xs = findIndexFrom predicate xs 0"

fun filterFrom :: "('a \<Rightarrow> int \<Rightarrow> 'a list \<Rightarrow> bool) \<Rightarrow> 'a list \<Rightarrow> 'a list \<Rightarrow> int \<Rightarrow> 'a list" where
  "filterFrom callback self [] i = []"
| "filterFrom callback self (x # xs) i =
     (if callback x i self then x # filterFrom callback self xs (i + 1)
      else filterFrom callback self xs (i + 1))"

definition Array_filter :: "('a \<Rightarrow> int \<Rightarrow> 'a list \<Rightarrow> bool) \<Rightarrow> 'a list \<Rightarrow> 'a list" where
  "Array_filter callback xs = filterFrom callback xs xs 0"

text \<open>The removal of duplicates of lines 84-86.\<close>

definition uniqueSpots :: "spot list \<Rightarrow> spot list" where
  "uniqueSpots allSpots =
     Array_filter
       (\<lambda>spot index self. index = Array_findIndex (\<lambda>s. spot.id' s = spot.id' spot) self)
       allSpots"

text \<open>
  The \<open>try\<close> block of \<open>handleGachaRoll\<close> up to the selected spots, lines 58-92. Its value
  is \<open>Inl\<close> for an exception that leaves the block and \<open>Inr\<close> for the selected spots.
\<close>

definition gachaRollTry :: "randomSource \<Rightarrow> dataSource \<Rightarrow> point \<Rightarrow> point \<Rightarrow> category \<Rightarrow> error + spot list" where
  "gachaRollTry rand source startPoint' endPoint' selectedCategory' =
     (let distance = calculateDistance startPoint' endPoint';
          searchRadius = calculateSearchRadius startPoint' endPoint';
          allMidPoints = calculateNearDestinationPoints startPoint' endPoint' 5
      in case selectRandomMidPoints rand 0 allMidPoints 3 of
           (selectedMidPoints, calls) \<Rightarrow>
             (let allSpots = fetchLoop source 0 searchRadius selectedCategory' selectedMidPoints [];
                  uniqueSpots' = uniqueSpots allSpots;
                  ratedSpots = addRatingsToSpots uniqueSpots' startPoint' endPoint'
              in case selectRandomSpotsWithoutRating rand calls ratedSpots 3 of
                   (selectedSpots, calls) \<Rightarrow> Inr selectedSpots))"

text \<open>
  \<open>handleGachaRoll\<close>, lines 49-115, as one step from the state in which the roll is
  started: \<open>now\<close> is the value of \<open>Date.now()\<close>. Without a start or an end point the
  handler returns at once.
\<close>

definition handleGachaRoll :: "int \<Rightarrow> randomSource \<Rightarrow> dataSource \<Rightarrow> appState \<Rightarrow> appState" where
  "handleGachaRoll now rand source state =
     (case (startPoint state, endPoint state) of
        (Some startPoint', Some endPoint') \<Rightarrow>
          (let state = state\<lparr>isLoading := True, gachaSpots := [],
                              gachaStartTime := Some now, gachaElapsedTime := 0\<rparr>;
               state =
                 (case gachaRollTry rand source startPoint' endPoint' (selectedCategory state) of
                    Inr selectedSpots \<Rightarrow>
                      (if length selectedSpots = 0 then
                         showToast ToastWarning [CHR 0xE3, CHR 0x81, CHR 0x93, CHR 0xE3,
                           CHR 0x81, CHR 0xAE, CHR 0xE7, CHR 0xB5, CHR 0x8C, CHR 0xE8, CHR 0xB7,
                           CHR 0xAF, CHR 0xE5, CHR 0x91, CHR 0xA8, CHR 0xE8, CHR 0xBE, CHR 0xBA,
                           CHR 0xE3, CHR 0x81, CHR 0xAB, CHR 0xE3, CHR 0x81, CHR 0xAF, CHR 0xE3,
                           CHR 0x82, CHR 0xB9, CHR 0xE3, CHR 0x83, CHR 0x9D, CHR 0xE3, CHR 0x83,
                           CHR 0x83, CHR 0xE3, CHR 0x83, CHR 0x88, CHR 0xE3, CHR 0x81, CHR 0x8C,
                           CHR 0xE8, CHR 0xA6, CHR 0x8B, CHR 0xE3, CHR 0x81, CHR 0xA4, CHR 0xE3,
                           CHR 0x81, CHR 0x8B, CHR 0xE3, CHR 0x82, CHR 0x8A, CHR 0xE3, CHR 0x81,
                           CHR 0xBE, CHR 0xE3, CHR 0x81, CHR 0x9B, CHR 0xE3, CHR 0x82, CHR 0x93,
                           CHR 0xE3, CHR 0x81, CHR 0xA7, CHR 0xE3, CHR 0x81, CHR 0x97, CHR 0xE3,
                           CHR 0x81, CHR 0x9F, CHR 0xE3, CHR 0x80, CHR 0x82, CHR 0xE5, CHR 0x88,
                           CHR 0xA5, CHR 0xE3, CHR 0x81, CHR 0xAE, CHR 0xE5, CHR 0x9C, CHR 0xB0,
                           CHR 0xE7, CHR 0x82, CHR 0xB9, CHR 0xE3, CHR 0x82, CHR 0x92, CHR 0xE8,
                           CHR 0xA9, CHR 0xA6, CHR 0xE3, CHR 0x81, CHR 0x97, CHR 0xE3, CHR 0x81,
                           CHR 0xA6, CHR 0xE3, CHR 0x81, CHR 0xBF, CHR 0xE3, CHR 0x81, CHR 0xA6,
                           CHR 0xE3, CHR 0x81, CHR 0x8F, CHR 0xE3, CHR 0x81, CHR 0xA0, CHR 0xE3,
                           CHR 0x81, CHR 0x95, CHR 0xE3, CHR 0x81, CHR 0x84, CHR 0xE3, CHR 0x80,
                           CHR 0x82] state
                       else
                         (let prev = allGachaHistory state;
                              newSpots =
                                filter (\<lambda>spot. \<not> list_ex (\<lambda>existingSpot.
                                          spot.id' existingSpot = spot.id' spot) prev)
                                  selectedSpots
                          in state\<lparr>gachaSpots := selectedSpots,
                                    allGachaHistory := prev @ newSpots\<rparr>))
                  | Inl error \<Rightarrow> showToast ToastError [CHR 0xE3, CHR 0x82, CHR 0xB9,
                    CHR 0xE3, CHR 0x83, CHR 0x9D, CHR 0xE3, CHR 0x83, CHR 0x83, CHR 0xE3,
                    CHR 0x83, CHR 0x88, CHR 0xE3, CHR 0x81, CHR 0xAE, CHR 0xE6, CHR 0xA4,
                    CHR 0x9C, CHR 0xE7, CHR 0xB4, CHR 0xA2, CHR 0xE4, CHR 0xB8, CHR 0xAD,
                    CHR 0xE3, CHR 0x81, CHR 0xAB, CHR 0xE3, CHR 0x82, CHR 0xA8, CHR 0xE3,
                    CHR 0x83, CHR 0xA9, CHR 0xE3, CHR 0x83, CHR 0xBC, CHR 0xE3, CHR 0x81,
                    CHR 0x8C, CHR 0xE7, CHR 0x99, CHR 0xBA, CHR 0xE7, CHR 0x94, CHR 0x9F,
                    CHR 0xE3, CHR 0x81, CHR 0x97, CHR 0xE3, CHR 0x81, CHR 0xBE, CHR 0xE3,
                    CHR 0x81, CHR 0x97, CHR 0xE3, CHR 0x81, CHR 0x9F, CHR 0xE3, CHR 0x80,
                    CHR 0x82, CHR 0xE3, CHR 0x81, CHR 0x97, CHR 0xE3, CHR 0x81, CHR 0xB0,
                    CHR 0xE3, CHR 0x82, CHR 0x89, CHR 0xE3, CHR 0x81, CHR 0x8F, CHR 0xE5,
                    CHR 0xBE, CHR 0x85, CHR 0xE3, CHR 0x81, CHR 0xA3, CHR 0xE3, CHR 0x81,
                    CHR 0xA6, CHR 0xE3, CHR 0x81, CHR 0x8B, CHR 0xE3, CHR 0x82, CHR 0x89,
                    CHR 0xE5, CHR 0x86, CHR 0x8D, CHR 0xE8, CHR 0xA9, CHR 0xA6, CHR 0xE8,
                    CHR 0xA1, CHR 0x8C, CHR 0xE3, CHR 0x81, CHR 0x97, CHR 0xE3, CHR 0x81,
                    CHR 0xA6, CHR 0xE3, CHR 0x81, CHR 0x8F, CHR 0xE3, CHR 0x81, CHR 0xA0,
                    CHR 0xE3, CHR 0x81, CHR 0x95, CHR 0xE3, CHR 0x81, CHR 0x84, CHR 0xE3,
                    CHR 0x80, CHR 0x82] state)
           in state\<lparr>isLoading := False, gachaStartTime := None, gachaElapsedTime := 0\<rparr>)
      | _ \<Rightarrow> state)"

section \<open>Test inputs\<close>

text \<open>
  A point on the equator whose Haversine distance from the point \<open>(0, 0)\<close> is \<open>d\<close>
  kilometres.
\<close>

definition equatorPoint :: "real \<Rightarrow> point" where
  "equatorPoint d = \<lparr>point.lat = 0, point.lng = d * 180 / (6371 * pi), point.name = None\<rparr>"


text \<open>
  A source of random numbers that always gives \<open>1/2\<close>, and five points on the
  equator.
\<close>

definition exampleRandom :: randomSource where
  "exampleRandom n = 1 / 2"

definition examplePoints :: "point list" where
  "examplePoints = map equatorPoint [1, 2, 3, 4, 5]"

text \<open>A tag map with a name and a phone number only, and two elements.\<close>

definition exampleTags :: "string \<rightharpoonup> string" where
  "exampleTags = [''name'' \<mapsto> ''Kissa'', ''phone'' \<mapsto> ''03'']"

definition exampleElements :: "overpassElement list" where
  "exampleElements =
     [\<lparr>overpassElement.type' = ''node'', overpassElement.id' = 7, overpassElement.lat = 0,
       overpassElement.lon = 0, tags = exampleTags\<rparr>,
      \<lparr>overpassElement.type' = ''node'', overpassElement.id' = 8, overpassElement.lat = 0,
       overpassElement.lon = 0, tags = [''name'' \<mapsto> ''Books'', ''shop'' \<mapsto> ''books'']\<rparr>]"

text \<open>
  A spot two kilometres east of the point \<open>(0, 0)\<close> on the equator, with all its metadata
  and no chain; the same spot as a shop of a chain, three kilometres off the route, without
  opening hours and phone and with an empty website; and the same spot as a shop of a
  major chain.
\<close>

definition exampleSpot :: spot where
  "exampleSpot =
     \<lparr>spot.id' = ''node_1'', spot.name = ''Kissa'',
      spot.lat = 0, spot.lng = point.lng (equatorPoint 2),
      spot.type' = ''cafe'', spot.category = Cafe,
      spot.description = Some ''cafe'', spot.address = Some [],
      spot.phone = Some ''03'', spot.website = Some ''https://kissa.example'',
      spot.openingHours = Some ''Mo-Fr 09:00-17:00'', spot.cuisine = None,
      spot.rating = None, spot.isChain = Some False, spot.chainName = None,
      spot.isMajorChain = Some False, spot.stars = None,
      spot.distanceFromRoute = Some (Num 0), spot.debugInfo = None\<rparr>"

definition exampleChainSpot :: spot where
  "exampleChainSpot =
     exampleSpot\<lparr>spot.isChain := Some True, spot.chainName := Some ''Doutor'',
                  spot.phone := None, spot.website := Some [], spot.openingHours := None,
                  spot.distanceFromRoute := Some (Num 3)\<rparr>"

definition exampleMajorChainSpot :: spot where
  "exampleMajorChainSpot =
     exampleSpot\<lparr>spot.isChain := Some True, spot.chainName := Some ''Gusto'',
                  spot.isMajorChain := Some True\<rparr>"

text \<open>
  A spot with another identifier, and the results of two points that share the identifier
  \<open>node_1\<close>.
\<close>

definition exampleOtherSpot :: spot where
  "exampleOtherSpot = exampleSpot\<lparr>spot.id' := ''node_2'', spot.name := ''Soba''\<rparr>"

definition exampleResults :: "spot list" where
  "exampleResults = [exampleSpot, exampleOtherSpot] @ [exampleChainSpot]"

text \<open>
  A data source whose first request is rejected, whose second request is answered with
  the two elements, and whose further requests are answered with the status 500.
\<close>

definition exampleSource :: dataSource where
  "exampleSource call midPoint radius category' =
     (if call = 0 then Rejected
      else if call = 1 then Resolved 200 (Some exampleElements)
      else Resolved 500 None)"

text \<open>A state of the application with a route of five kilometres along the equator.\<close>

definition exampleState :: appState where
  "exampleState = initialState\<lparr>startPoint := Some (equatorPoint 0), endPoint := Some (equatorPoint 5)\<rparr>"

section \<open>Words of the specification\<close>

text \<open>
  "The distance from the route exceeds \<open>c\<close>": the field \<open>distanceFromRoute\<close> of the spot
  holds a number, and the number is greater than \<open>c\<close>. "Missing" opening hours, phone or
  website: the field is absent or the empty string.
\<close>

fun exceeds :: "jsnumber option \<Rightarrow> real \<Rightarrow> bool" where
  "exceeds (Some (Num x)) c = (c < x)"
| "exceeds (Some PosInfinity) c = True"
| "exceeds (Some NegInfinity) c = False"
| "exceeds (Some NaN) c = False"
| "exceeds None c = False"

definition missing :: "string option \<Rightarrow> bool" where
  "missing field = (field = None \<or> field = Some [])"

text \<open>
  "Deduplicate by identifier, keeping first occurrence": go through the list from the
  front and keep an entry when its identifier has not been seen before. \<open>key\<close> gives
  the identifier of an entry; for spots it is the field \<open>id\<close>.
\<close>

fun keepFirstBy :: "('a \<Rightarrow> 'k) \<Rightarrow> 'k list \<Rightarrow> 'a list \<Rightarrow> 'a list" where
  "keepFirstBy key seen [] = []"
| "keepFirstBy key seen (x # xs) =
     (if key x \<in> set seen then keepFirstBy key seen xs
      else x # keepFirstBy key (key x # seen) xs)"

text \<open>
  "The candidates returned for a sample point": the spots of the elements of a success
  response to the request for the point; a point whose request fails returns none.
\<close>

definition candidatesOf :: "dataSource \<Rightarrow> nat \<Rightarrow> real \<Rightarrow> category \<Rightarrow> point \<Rightarrow> spot list" where
  "candidatesOf source call searchRadius category' midPoint =
     (case source call (calculateMidPoint midPoint midPoint) searchRadius category' of
        Rejected \<Rightarrow> []
      | Resolved status body \<Rightarrow>
          (case body of
             None \<Rightarrow> []
           | Some elements \<Rightarrow>
               if 200 \<le> status \<and> status \<le> 299 then convertToSpots elements else []))"

text \<open>A sequence of clicks on the map, each with its latitude and longitude.\<close>

definition handleMapClicks :: "(real \<times> real) list \<Rightarrow> appState \<Rightarrow> appState" where
  "handleMapClicks clicks state = fold (\<lambda>(lat', lng') state. handleMapClick lat' lng' state) clicks state"

section \<open>Properties\<close>

subsection \<open>Library functions\<close>

text \<open>\<open>String_includes\<close> is the relation of a contiguous sublist.\<close>

lemma String_includes_sublist: "String_includes s searchString = sublist searchString s"
  by (induction s) (simp_all add: sublist_Cons_right)

subsection \<open>The Haversine distance\<close>

lemma sin_half_times_self: "sin (x / 2) * sin (x / 2) = (1 - cos x) / (2::real)"
proof -
  have "cos (2 * (x / 2)) = 1 - 2 * (sin (x / 2))\<^sup>2"
    by (rule cos_double_sin)
  then show ?thesis
    by (simp add: power2_eq_square)
qed

lemma abs_times_le_half_squares: "\<bar>x * y\<bar> \<le> (x * x + y * y) / (2::real)"
proof -
  have "0 \<le> (\<bar>x\<bar> - \<bar>y\<bar>) * (\<bar>x\<bar> - \<bar>y\<bar>)"
    by simp
  then have "2 * (\<bar>x\<bar> * \<bar>y\<bar>) \<le> \<bar>x\<bar> * \<bar>x\<bar> + \<bar>y\<bar> * \<bar>y\<bar>"
    by (simp add: algebra_simps)
  then show ?thesis
    by (simp add: abs_mult)
qed

lemma halves_of_two_units:
  fixes sp cp sq cq :: real
  shows "sp + cp = 1 \<Longrightarrow> sq + cq = 1 \<Longrightarrow> (sp + sq) / 2 + (cp + cq) / 2 = 1"
  by (simp add: field_simps)

text \<open>The scalar product of two unit vectors given by latitude and longitude.\<close>

lemma unit_vectors_product_bound:
  fixes p q d :: real
  shows "\<bar>sin p * sin q + cos p * cos q * cos d\<bar> \<le> 1"
proof -
  have s: "\<bar>sin p * sin q\<bar> \<le> (sin p * sin p + sin q * sin q) / 2"
    by (rule abs_times_le_half_squares)
  have c: "\<bar>cos p * cos q\<bar> \<le> (cos p * cos p + cos q * cos q) / 2"
    by (rule abs_times_le_half_squares)
  have "\<bar>cos p * cos q * cos d\<bar> = \<bar>cos p * cos q\<bar> * \<bar>cos d\<bar>"
    by (simp add: abs_mult)
  also have "\<dots> \<le> \<bar>cos p * cos q\<bar> * 1"
    by (rule mult_left_mono) simp_all
  finally have c': "\<bar>cos p * cos q * cos d\<bar> \<le> (cos p * cos p + cos q * cos q) / 2"
    using c by simp
  have one: "sin p * sin p + cos p * cos p = 1" "sin q * sin q + cos q * cos q = 1"
    using sin_cos_squared_add [of p] sin_cos_squared_add [of q]
    by (simp_all add: power2_eq_square)
  have "\<bar>sin p * sin q + cos p * cos q * cos d\<bar>
      \<le> \<bar>sin p * sin q\<bar> + \<bar>cos p * cos q * cos d\<bar>"
    by (rule abs_triangle_ineq)
  also have "\<dots> \<le> (sin p * sin p + sin q * sin q) / 2 + (cos p * cos p + cos q * cos q) / 2"
    using s c' by linarith
  also have "\<dots> = 1"
    by (rule halves_of_two_units [OF one])
  finally show ?thesis .
qed

lemma haversine_as_product:
  fixes p q d :: real
  shows "sin ((q - p) / 2) * sin ((q - p) / 2) + cos p * cos q * sin (d / 2) * sin (d / 2)
       = (1 - (sin p * sin q + cos p * cos q * cos d)) / 2"
proof -
  have "sin ((q - p) / 2) * sin ((q - p) / 2) = (1 - cos (q - p)) / 2"
    by (rule sin_half_times_self)
  moreover have "cos p * cos q * sin (d / 2) * sin (d / 2) = cos p * cos q * ((1 - cos d) / 2)"
    using sin_half_times_self [of d] by (simp add: mult.assoc)
  moreover have "cos (q - p) = cos q * cos p + sin q * sin p"
    by (rule cos_diff)
  ultimately show ?thesis
    by (simp add: algebra_simps)
qed

text \<open>
  The value \<open>a\<close> of \<open>calculateDistance\<close> lies between 0 and 1 for all points, so both
  square roots of the program are taken of non-negative numbers.
\<close>

lemma haversine_a_range:
  fixes point1 point2 :: point
  defines "dLat \<equiv> (point.lat point2 - point.lat point1) * pi / 180"
    and "dLng \<equiv> (point.lng point2 - point.lng point1) * pi / 180"
  defines "a \<equiv> sin (dLat / 2) * sin (dLat / 2) +
      cos (point.lat point1 * pi / 180) * cos (point.lat point2 * pi / 180) * sin (dLng / 2) * sin (dLng / 2)"
  shows "0 \<le> a" and "0 \<le> 1 - a"
proof -
  have "dLat = point.lat point2 * pi / 180 - point.lat point1 * pi / 180"
    by (simp add: dLat_def algebra_simps diff_divide_distrib)
  then have a: "a = (1 - (sin (point.lat point1 * pi / 180) * sin (point.lat point2 * pi / 180) +
      cos (point.lat point1 * pi / 180) * cos (point.lat point2 * pi / 180) * cos dLng)) / 2"
    unfolding a_def by (simp only: haversine_as_product)
  have "\<bar>sin (point.lat point1 * pi / 180) * sin (point.lat point2 * pi / 180) +
      cos (point.lat point1 * pi / 180) * cos (point.lat point2 * pi / 180) * cos dLng\<bar> \<le> 1"
    by (rule unit_vectors_product_bound)
  then show "0 \<le> a" and "0 \<le> 1 - a"
    unfolding a by (simp_all add: abs_le_iff)
qed

lemma calculateDistance_commute: "calculateDistance a b = calculateDistance b a"
proof -
  have neg: "sin ((x - y) * pi / 180 / 2) = - sin ((y - x) * pi / 180 / 2)" for x y :: real
  proof -
    have "(x - y) * pi / 180 / 2 = - ((y - x) * pi / 180 / 2)"
      by (simp add: field_simps)
    then show ?thesis
      by (simp only: sin_minus)
  qed
  show ?thesis
    unfolding calculateDistance_def Let_def neg [of "point.lat b" "point.lat a"] neg [of "point.lng b" "point.lng a"]
    by (simp add: mult.commute)
qed

lemma calculateDistance_same: "calculateDistance a a = 0"
  by (simp add: calculateDistance_def Math_atan2_def)

text \<open>
  Claim C8. The Haversine distance of \<open>calculateDistance\<close> (Earth radius 6371 km) is
  symmetric, and the distance of a point to itself is 0.
\<close>

theorem C8_haversine_symmetric_and_zero:
  "calculateDistance A B = calculateDistance B A \<and> calculateDistance A A = 0"
  by (simp add: calculateDistance_commute [of A B] calculateDistance_same)

text \<open>The divisor of \<open>calculateDistanceFromRoute\<close> is the root of a sum of two squares.\<close>

lemma route_divisor_argument: "0 \<le> A * A + B * (B::real)"
  by simp

subsection \<open>The search radius\<close>

lemma calculateDistance_equator:
  assumes "0 \<le> d" "d < 6371 * pi"
  shows "calculateDistance (equatorPoint 0) (equatorPoint d) = d"
proof -
  define h where "h = d / 6371 / 2"
  have h: "0 \<le> h" "h < pi / 2"
    using assms by (simp_all add: h_def)
  then have c: "0 < cos h"
    by (simp add: cos_gt_zero_pi)
  have s: "0 \<le> sin h"
    using h by (simp add: sin_ge_zero)
  have "1 - sin h * sin h = cos h * cos h"
    using sin_cos_squared_add [of h] by (simp add: power2_eq_square)
  then have "Math_atan2 (sqrt (sin h * sin h)) (sqrt (1 - sin h * sin h)) = arctan (sin h / cos h)"
    using c s by (simp add: Math_atan2_def)
  also have "\<dots> = h"
    using h arctan_tan [of h] by (simp add: tan_def)
  finally have at: "Math_atan2 (sqrt (sin h * sin h)) (sqrt (1 - sin h * sin h)) = h" .
  have "(d * 180 / (6371 * pi)) * pi / 180 / 2 = h"
    by (simp add: h_def)
  then have "calculateDistance (equatorPoint 0) (equatorPoint d)
      = 6371 * (2 * Math_atan2 (sqrt (sin h * sin h)) (sqrt (1 - sin h * sin h)))"
    unfolding calculateDistance_def Let_def equatorPoint_def by simp
  also have "\<dots> = 6371 * (2 * h)"
    unfolding at ..
  also have "\<dots> = d"
    by (simp add: h_def)
  finally show ?thesis .
qed


text \<open>
  Claim C3. The search radius is a step function of the Haversine distance \<open>d\<close> of start
  and end, in kilometres: 1500 m for \<open>d \<le> 1\<close>, 2000 m for \<open>1 < d \<le> 3\<close>, 3000 m
  for \<open>3 < d \<le> 10\<close>, 5000 m for \<open>10 < d \<le> 20\<close> and 7000 m otherwise; so the
  distances 0.5, 2, 5, 15 and 25 give 1500, 2000, 3000, 5000 and 7000; and the radius
  depends on the two points through their distance only.
\<close>

theorem C3_search_radius_steps:
  "(let d = calculateDistance s e; r = calculateSearchRadius s e
    in (d \<le> 1 \<longrightarrow> r = 1500) \<and>
       (1 < d \<and> d \<le> 3 \<longrightarrow> r = 2000) \<and>
       (3 < d \<and> d \<le> 10 \<longrightarrow> r = 3000) \<and>
       (10 < d \<and> d \<le> 20 \<longrightarrow> r = 5000) \<and>
       (\<not> d \<le> 20 \<longrightarrow> r = 7000) \<and>
       (d = 0.5 \<longrightarrow> r = 1500) \<and>
       (d = 2 \<longrightarrow> r = 2000) \<and>
       (d = 5 \<longrightarrow> r = 3000) \<and>
       (d = 15 \<longrightarrow> r = 5000) \<and>
       (d = 25 \<longrightarrow> r = 7000) \<and>
       (\<forall>s' e'. calculateDistance s' e' = d \<longrightarrow> calculateSearchRadius s' e' = r))"
proof -
  have tiers: "calculateSearchRadius a b =
      (if calculateDistance a b \<le> 1 then 1500
       else if calculateDistance a b \<le> 3 then 2000
       else if calculateDistance a b \<le> 10 then 3000
       else if calculateDistance a b \<le> 20 then 5000
       else 7000)" for a b
    by (simp only: calculateSearchRadius_def Let_def)
  have same: "calculateSearchRadius s' e' = calculateSearchRadius s e"
    if "calculateDistance s' e' = calculateDistance s e" for s' e'
    by (simp only: tiers that)
  have "\<forall>s' e'. calculateDistance s' e' = calculateDistance s e
      \<longrightarrow> calculateSearchRadius s' e' = calculateSearchRadius s e"
    using same by blast
  moreover have "calculateDistance s e \<le> 1 \<longrightarrow> calculateSearchRadius s e = 1500"
    and "1 < calculateDistance s e \<and> calculateDistance s e \<le> 3
      \<longrightarrow> calculateSearchRadius s e = 2000"
    and "3 < calculateDistance s e \<and> calculateDistance s e \<le> 10
      \<longrightarrow> calculateSearchRadius s e = 3000"
    and "10 < calculateDistance s e \<and> calculateDistance s e \<le> 20
      \<longrightarrow> calculateSearchRadius s e = 5000"
    and "\<not> calculateDistance s e \<le> 20 \<longrightarrow> calculateSearchRadius s e = 7000"
    and "calculateDistance s e = 0.5 \<longrightarrow> calculateSearchRadius s e = 1500"
    and "calculateDistance s e = 2 \<longrightarrow> calculateSearchRadius s e = 2000"
    and "calculateDistance s e = 5 \<longrightarrow> calculateSearchRadius s e = 3000"
    and "calculateDistance s e = 15 \<longrightarrow> calculateSearchRadius s e = 5000"
    and "calculateDistance s e = 25 \<longrightarrow> calculateSearchRadius s e = 7000"
    by (simp_all add: tiers)
  ultimately show ?thesis
    unfolding Let_def by (intro conjI)
qed


text \<open>Pairs of points at the distances 0.5, 2, 5, 15 and 25 km, one in every step.\<close>

lemma pi_bounds: "25 < 6371 * pi"
  using pi_ge_two by simp

theorem C3_search_radius_steps_witness:
  "calculateDistance (equatorPoint 0) (equatorPoint 0.5) = 0.5 \<and>
   calculateSearchRadius (equatorPoint 0) (equatorPoint 0.5) = 1500 \<and>
   calculateDistance (equatorPoint 0) (equatorPoint 2) = 2 \<and>
   calculateSearchRadius (equatorPoint 0) (equatorPoint 2) = 2000 \<and>
   calculateDistance (equatorPoint 0) (equatorPoint 5) = 5 \<and>
   calculateSearchRadius (equatorPoint 0) (equatorPoint 5) = 3000 \<and>
   calculateDistance (equatorPoint 0) (equatorPoint 15) = 15 \<and>
   calculateSearchRadius (equatorPoint 0) (equatorPoint 15) = 5000 \<and>
   calculateDistance (equatorPoint 0) (equatorPoint 25) = 25 \<and>
   calculateSearchRadius (equatorPoint 0) (equatorPoint 25) = 7000"
proof -
  have d: "calculateDistance (equatorPoint 0) (equatorPoint 0.5) = 0.5"
    "calculateDistance (equatorPoint 0) (equatorPoint 2) = 2"
    "calculateDistance (equatorPoint 0) (equatorPoint 5) = 5"
    "calculateDistance (equatorPoint 0) (equatorPoint 15) = 15"
    "calculateDistance (equatorPoint 0) (equatorPoint 25) = 25"
    by (rule calculateDistance_equator, simp, use pi_bounds in linarith)+
  have "calculateDistance (equatorPoint 0) (equatorPoint 0.5) = 0.5
      \<longrightarrow> calculateSearchRadius (equatorPoint 0) (equatorPoint 0.5) = 1500"
    using C3_search_radius_steps [of "equatorPoint 0" "equatorPoint 0.5"]
    unfolding Let_def by blast
  moreover have "calculateDistance (equatorPoint 0) (equatorPoint 2) = 2
      \<longrightarrow> calculateSearchRadius (equatorPoint 0) (equatorPoint 2) = 2000"
    using C3_search_radius_steps [of "equatorPoint 0" "equatorPoint 2"]
    unfolding Let_def by blast
  moreover have "calculateDistance (equatorPoint 0) (equatorPoint 5) = 5
      \<longrightarrow> calculateSearchRadius (equatorPoint 0) (equatorPoint 5) = 3000"
    using C3_search_radius_steps [of "equatorPoint 0" "equatorPoint 5"]
    unfolding Let_def by blast
  moreover have "calculateDistance (equatorPoint 0) (equatorPoint 15) = 15
      \<longrightarrow> calculateSearchRadius (equatorPoint 0) (equatorPoint 15) = 5000"
    using C3_search_radius_steps [of "equatorPoint 0" "equatorPoint 15"]
    unfolding Let_def by blast
  moreover have "calculateDistance (equatorPoint 0) (equatorPoint 25) = 25
      \<longrightarrow> calculateSearchRadius (equatorPoint 0) (equatorPoint 25) = 7000"
    using C3_search_radius_steps [of "equatorPoint 0" "equatorPoint 25"]
    unfolding Let_def by blast
  ultimately show ?thesis
    using d by blast
qed

subsection \<open>The interpolated points\<close>

text \<open>The loop appends one point for every index from \<open>i\<close> up to the count.\<close>

lemma nearDestinationLoop_map:
  "nearDestinationLoop start end' c i points =
     points @ map (\<lambda>k. \<lparr>point.lat = point.lat start + (point.lat end' - point.lat start) * ((real k + 1) / (real c + 1)),
                         point.lng = point.lng start + (point.lng end' - point.lng start) * ((real k + 1) / (real c + 1)),
                         point.name = None\<rparr>) [i..<c]"
proof (induction start end' c i points rule: nearDestinationLoop.induct)
  case (1 start end' c i points)
  show ?case
  proof (cases "i < c")
    case True
    then have "[i..<c] = i # [i + 1..<c]"
      by (simp add: upt_conv_Cons)
    with True 1 show ?thesis
      by (subst nearDestinationLoop.simps) (simp add: Let_def)
  next
    case False
    then show ?thesis
      by (subst nearDestinationLoop.simps) simp
  qed
qed

lemma upt_0_5: "[0..<5] = [0, 1, 2, 3, 4::nat]"
  by (simp add: upt_rec)

text \<open>
  Claim C4. For all start and end points, the five points computed for a roll are the
  points of the straight segment from start to end, in latitude and longitude, at the
  parameters 1/6, 2/6, 3/6, 4/6 and 5/6: the \<open>i\<close>-th point has the latitude
  \<open>start.lat + (end.lat - start.lat) * i/6\<close>, and its longitude likewise.
\<close>

theorem C4_five_points_on_the_segment:
  "calculateNearDestinationPoints s e 5 =
     [\<lparr>point.lat = point.lat s + (point.lat e - point.lat s) * (1 / 6),
       point.lng = point.lng s + (point.lng e - point.lng s) * (1 / 6), point.name = None\<rparr>,
      \<lparr>point.lat = point.lat s + (point.lat e - point.lat s) * (2 / 6),
       point.lng = point.lng s + (point.lng e - point.lng s) * (2 / 6), point.name = None\<rparr>,
      \<lparr>point.lat = point.lat s + (point.lat e - point.lat s) * (3 / 6),
       point.lng = point.lng s + (point.lng e - point.lng s) * (3 / 6), point.name = None\<rparr>,
      \<lparr>point.lat = point.lat s + (point.lat e - point.lat s) * (4 / 6),
       point.lng = point.lng s + (point.lng e - point.lng s) * (4 / 6), point.name = None\<rparr>,
      \<lparr>point.lat = point.lat s + (point.lat e - point.lat s) * (5 / 6),
       point.lng = point.lng s + (point.lng e - point.lng s) * (5 / 6), point.name = None\<rparr>]"
  unfolding calculateNearDestinationPoints_def nearDestinationLoop_map upt_0_5
  by simp

subsection \<open>Categories\<close>

lemma determineCategory_cases:
  "determineCategory t = Restaurant \<or> determineCategory t = Cafe \<or>
   determineCategory t = Tourist_attraction \<or> determineCategory t = Gas_station \<or>
   determineCategory t = Shop"
  by (simp add: determineCategory_def)

lemma convertToSpots_category:
  "s \<in> set (convertToSpots elements) \<Longrightarrow> \<exists>t. spot.category s = determineCategory t"
  by (auto simp add: convertToSpots_def Let_def)

text \<open>
  Claim C10. For every tag map of an element the category is one of restaurant, cafe,
  tourist attraction, gas station and shop, never "all"; an element whose tags match none
  of the rules (amenity restaurant, fast_food, cafe or fuel; tourism attraction or museum;
  a shop tag) gets the category restaurant; so every spot made from elements of the data
  source has a category other than "all".
\<close>

theorem C10_category_never_all:
  "determineCategory t \<in> {Restaurant, Cafe, Tourist_attraction, Gas_station, Shop} \<and>
   determineCategory t \<noteq> All_categories \<and>
   (t ''amenity'' \<noteq> Some ''restaurant'' \<and> t ''amenity'' \<noteq> Some ''fast_food'' \<and>
    t ''amenity'' \<noteq> Some ''cafe'' \<and> t ''amenity'' \<noteq> Some ''fuel'' \<and>
    t ''tourism'' \<noteq> Some ''attraction'' \<and> t ''tourism'' \<noteq> Some ''museum'' \<and>
    \<not> truthy (t ''shop'')
    \<longrightarrow> determineCategory t = Restaurant) \<and>
   (\<forall>s \<in> set (convertToSpots elements). spot.category s \<noteq> All_categories)"
proof -
  have cases: "determineCategory u \<in> {Restaurant, Cafe, Tourist_attraction, Gas_station, Shop}" for u
    using determineCategory_cases [of u] by auto
  then have never: "determineCategory u \<noteq> All_categories" for u
    by (metis category.distinct empty_iff insert_iff)
  have "\<forall>s \<in> set (convertToSpots elements). spot.category s \<noteq> All_categories"
    using convertToSpots_category never by metis
  moreover have "t ''amenity'' \<noteq> Some ''restaurant'' \<and> t ''amenity'' \<noteq> Some ''fast_food'' \<and>
    t ''amenity'' \<noteq> Some ''cafe'' \<and> t ''amenity'' \<noteq> Some ''fuel'' \<and>
    t ''tourism'' \<noteq> Some ''attraction'' \<and> t ''tourism'' \<noteq> Some ''museum'' \<and>
    \<not> truthy (t ''shop'')
    \<longrightarrow> determineCategory t = Restaurant"
    by (simp add: determineCategory_def)
  ultimately show ?thesis
    using cases never by blast
qed

lemma exampleElements_spots: "map spot.category (convertToSpots exampleElements) = [Restaurant, Shop]"
  by (simp add: convertToSpots_def exampleElements_def exampleTags_def determineCategory_def Let_def)

theorem C10_category_never_all_witness:
  "exampleTags ''amenity'' \<noteq> Some ''restaurant'' \<and> exampleTags ''amenity'' \<noteq> Some ''fast_food'' \<and>
   exampleTags ''amenity'' \<noteq> Some ''cafe'' \<and> exampleTags ''amenity'' \<noteq> Some ''fuel'' \<and>
   exampleTags ''tourism'' \<noteq> Some ''attraction'' \<and> exampleTags ''tourism'' \<noteq> Some ''museum'' \<and>
   \<not> truthy (exampleTags ''shop'') \<and>
   determineCategory exampleTags = Restaurant \<and>
   map spot.category (convertToSpots exampleElements) = [Restaurant, Shop] \<and>
   All_categories \<notin> spot.category ` set (convertToSpots exampleElements)"
proof -
  have h: "exampleTags ''amenity'' \<noteq> Some ''restaurant'' \<and> exampleTags ''amenity'' \<noteq> Some ''fast_food'' \<and>
   exampleTags ''amenity'' \<noteq> Some ''cafe'' \<and> exampleTags ''amenity'' \<noteq> Some ''fuel'' \<and>
   exampleTags ''tourism'' \<noteq> Some ''attraction'' \<and> exampleTags ''tourism'' \<noteq> Some ''museum'' \<and>
   \<not> truthy (exampleTags ''shop'')"
    by (simp add: exampleTags_def)
  note claim = C10_category_never_all [of exampleTags exampleElements]
  have "determineCategory exampleTags = Restaurant"
    using h claim by blast
  moreover have "All_categories \<notin> spot.category ` set (convertToSpots exampleElements)"
    using claim by (auto simp add: image_iff)
  ultimately show ?thesis
    using h exampleElements_spots by blast
qed

subsection \<open>The rating\<close>

lemma score_of_penalty: "score_of (penalty points t vars) = score_of vars - points"
  by (cases vars) (simp add: score_of_def penalty_def)

lemma score_of_if: "score_of (if c then a else b) = (if c then score_of a else score_of b)"
  by simp

lemma js_greater_orZero:
  assumes "0 \<le> c"
  shows "js_greater (orZero d) c = exceeds d c"
proof (cases d)
  case None
  with assms show ?thesis by simp
next
  case (Some x)
  with assms show ?thesis by (cases x) simp_all
qed

lemma truthy_missing: "truthy field = (\<not> missing field)"
  by (cases field) (simp_all add: missing_def)

lemma exceeds_mono: "c \<le> c' \<Longrightarrow> exceeds d c' \<Longrightarrow> exceeds d c"
  by (induction d c' rule: exceeds.induct) simp_all

lemma penalties_score:
  "score_of (calculateSpotRating_penalties spot s e) =
     100 - (if isBackward (spotPoint spot) s e then 40 else 0)
         - (if exceeds (spot.distanceFromRoute spot) 2.5 then 30
            else if exceeds (spot.distanceFromRoute spot) 1.8 then 20 else 0)
         - (if spot.isChain spot = Some True then 20 else 0)
         - (if calculateDistance (spotPoint spot) s \<le> 0.3 then 25 else 0)
         - (if missing (spot.openingHours spot) then 10 else 0)
         - (if missing (spot.phone spot) then 10 else 0)
         - (if missing (spot.website spot) then 10 else 0)"
proof -
  have chain: "truthyFlag (spot.isChain spot) = (spot.isChain spot = Some True)"
    by (cases "spot.isChain spot") simp_all
  have init: "score_of (100, 0, t) = 100" for t :: string
    by (simp add: score_of_def)
  show ?thesis
    unfolding calculateSpotRating_penalties_def Let_def
    by (simp only: score_of_if score_of_penalty init js_greater_orZero chain truthy_missing
        if_distrib [of "\<lambda>x. x - _"]) simp
qed

lemma rating_stars:
  "\<not> truthyFlag (spot.isMajorChain spot) \<Longrightarrow>
   spotRating.stars (calculateSpotRating spot s e) =
     (if score_of (calculateSpotRating_penalties spot s e) \<ge> 70 then 3
      else if score_of (calculateSpotRating_penalties spot s e) \<ge> 30 then 2 else 1)"
  by (simp add: calculateSpotRating_def score_of_def Let_def split: prod.splits)

text \<open>
  Claim C1. For every spot that is not flagged as a major chain and all start and end
  points: the score starts at 100; 40 is subtracted if the spot is backward of the route;
  30 if its distance from the route exceeds 2.5 km, else 20 if it exceeds 1.8 km; 20 if
  the spot is a chain; 25 if its Haversine distance from the start is at most 0.3 km; 10
  each for missing opening hours, phone and website; the stars are 3 for a score of at
  least 70, 2 for at least 30, else 1. A spot to which no penalty applies scores 100 and
  gets 3 stars.
\<close>

theorem C1_rating_heuristic:
  assumes "spot.isMajorChain spot \<noteq> Some True"
  shows
    "let score = score_of (calculateSpotRating_penalties spot s e);
         stars' = spotRating.stars (calculateSpotRating spot s e)
     in score =
          100 - (if isBackward (spotPoint spot) s e then 40 else 0)
              - (if exceeds (spot.distanceFromRoute spot) 2.5 then 30
                 else if exceeds (spot.distanceFromRoute spot) 1.8 then 20 else 0)
              - (if spot.isChain spot = Some True then 20 else 0)
              - (if calculateDistance (spotPoint spot) s \<le> 0.3 then 25 else 0)
              - (if missing (spot.openingHours spot) then 10 else 0)
              - (if missing (spot.phone spot) then 10 else 0)
              - (if missing (spot.website spot) then 10 else 0) \<and>
        stars' = (if score \<ge> 70 then 3 else if score \<ge> 30 then 2 else 1) \<and>
        (\<not> isBackward (spotPoint spot) s e \<and>
         \<not> exceeds (spot.distanceFromRoute spot) 1.8 \<and>
         spot.isChain spot \<noteq> Some True \<and>
         \<not> calculateDistance (spotPoint spot) s \<le> 0.3 \<and>
         \<not> missing (spot.openingHours spot) \<and>
         \<not> missing (spot.phone spot) \<and>
         \<not> missing (spot.website spot)
         \<longrightarrow> score = 100 \<and> stars' = 3)"
proof -
  have flag: "\<not> truthyFlag (spot.isMajorChain spot)"
    using assms by (cases "spot.isMajorChain spot") simp_all
  have far: "\<not> exceeds d 2.5" if "\<not> exceeds d 1.8" for d
    using that exceeds_mono [of "1.8" "2.5" d] by auto
  have clean: "score_of (calculateSpotRating_penalties spot s e) = 100"
    if "\<not> isBackward (spotPoint spot) s e"
      and "\<not> exceeds (spot.distanceFromRoute spot) 1.8"
      and "spot.isChain spot \<noteq> Some True"
      and "\<not> calculateDistance (spotPoint spot) s \<le> 0.3"
      and "\<not> missing (spot.openingHours spot)"
      and "\<not> missing (spot.phone spot)"
      and "\<not> missing (spot.website spot)"
    using that far [of "spot.distanceFromRoute spot"] by (simp only: penalties_score if_False) simp
  show ?thesis
    unfolding Let_def
  proof (intro conjI impI)
    show "score_of (calculateSpotRating_penalties spot s e) =
          100 - (if isBackward (spotPoint spot) s e then 40 else 0)
              - (if exceeds (spot.distanceFromRoute spot) 2.5 then 30
                 else if exceeds (spot.distanceFromRoute spot) 1.8 then 20 else 0)
              - (if spot.isChain spot = Some True then 20 else 0)
              - (if calculateDistance (spotPoint spot) s \<le> 0.3 then 25 else 0)
              - (if missing (spot.openingHours spot) then 10 else 0)
              - (if missing (spot.phone spot) then 10 else 0)
              - (if missing (spot.website spot) then 10 else 0)"
      by (rule penalties_score)
    show "spotRating.stars (calculateSpotRating spot s e) =
        (if score_of (calculateSpotRating_penalties spot s e) \<ge> 70 then 3
         else if score_of (calculateSpotRating_penalties spot s e) \<ge> 30 then 2 else 1)"
      by (rule rating_stars [OF flag])
  next
    assume none: "\<not> isBackward (spotPoint spot) s e \<and>
         \<not> exceeds (spot.distanceFromRoute spot) 1.8 \<and>
         spot.isChain spot \<noteq> Some True \<and>
         \<not> calculateDistance (spotPoint spot) s \<le> 0.3 \<and>
         \<not> missing (spot.openingHours spot) \<and>
         \<not> missing (spot.phone spot) \<and>
         \<not> missing (spot.website spot)"
    then show "score_of (calculateSpotRating_penalties spot s e) = 100"
      by (simp add: clean)
    from none show "spotRating.stars (calculateSpotRating spot s e) = 3"
      by (simp add: clean rating_stars [OF flag])
  qed
qed

lemma calculateDistance_coordinates:
  assumes "point.lat p = point.lat p'" "point.lng p = point.lng p'"
  shows "calculateDistance p q = calculateDistance p' q"
  using assms by (simp add: calculateDistance_def)

lemma isBackward_between:
  assumes "point.lat p = point.lat s" "point.lat e = point.lat s"
    and "point.lng s \<le> point.lng p" "point.lng p \<le> point.lng e"
  shows "\<not> isBackward p s e"
proof -
  have z: "point.lat e - point.lat s = 0"
    using assms by simp
  have "0 \<le> (point.lng e - point.lng s) * (point.lng p - point.lng s)"
    using assms by (intro mult_nonneg_nonneg) simp_all
  then have dot: "\<not> (point.lat e - point.lat s) * (point.lat p - point.lat s) +
      (point.lng e - point.lng s) * (point.lng p - point.lng s) < 0"
    by (simp only: z mult_zero_left add_0_left not_less)
  have "(point.lng e - point.lng s) * (point.lng p - point.lng e) \<le> 0"
    using assms by (intro mult_nonneg_nonpos) simp_all
  then have endDot: "\<not> 0 < (point.lat e - point.lat s) * (point.lat p - point.lat e) +
      (point.lng e - point.lng s) * (point.lng p - point.lng e)"
    by (simp only: z mult_zero_left add_0_left not_less)
  show ?thesis
    unfolding isBackward_def Let_def by (simp only: dot endDot if_False) simp
qed

lemma equatorPoint_mono: "a \<le> b \<Longrightarrow> point.lng (equatorPoint a) \<le> point.lng (equatorPoint b)"
  by (simp add: equatorPoint_def divide_right_mono)

lemma exampleSpot_distance:
  "calculateDistance (spotPoint exampleSpot) (equatorPoint 0) = 2"
proof -
  have "calculateDistance (spotPoint exampleSpot) (equatorPoint 0)
      = calculateDistance (equatorPoint 2) (equatorPoint 0)"
    by (rule calculateDistance_coordinates) (simp_all add: spotPoint_def exampleSpot_def equatorPoint_def)
  also have "\<dots> = calculateDistance (equatorPoint 0) (equatorPoint 2)"
    by (rule calculateDistance_commute)
  also have "\<dots> = 2"
    by (rule calculateDistance_equator, simp, use pi_bounds in linarith)
  finally show ?thesis .
qed

lemma exampleSpot_not_backward:
  "\<not> isBackward (spotPoint exampleSpot) (equatorPoint 0) (equatorPoint 5)"
proof (rule isBackward_between)
  show "point.lng (equatorPoint 0) \<le> point.lng (spotPoint exampleSpot)"
    using equatorPoint_mono [of 0 2] by (simp add: spotPoint_def exampleSpot_def)
  show "point.lng (spotPoint exampleSpot) \<le> point.lng (equatorPoint 5)"
    using equatorPoint_mono [of 2 5] by (simp add: spotPoint_def exampleSpot_def)
qed (simp_all add: spotPoint_def exampleSpot_def equatorPoint_def)

lemma exampleChainSpot_point: "spotPoint exampleChainSpot = spotPoint exampleSpot"
  by (simp add: exampleChainSpot_def spotPoint_def)

theorem C1_rating_heuristic_witness:
  "spot.isMajorChain exampleSpot \<noteq> Some True \<and>
   score_of (calculateSpotRating_penalties exampleSpot (equatorPoint 0) (equatorPoint 5)) = 100 \<and>
   spotRating.stars (calculateSpotRating exampleSpot (equatorPoint 0) (equatorPoint 5)) = 3 \<and>
   spot.isMajorChain exampleChainSpot \<noteq> Some True \<and>
   score_of (calculateSpotRating_penalties exampleChainSpot (equatorPoint 0) (equatorPoint 5)) = 20 \<and>
   spotRating.stars (calculateSpotRating exampleChainSpot (equatorPoint 0) (equatorPoint 5)) = 1"
proof -
  have plain: "spot.isMajorChain exampleSpot \<noteq> Some True"
    by (simp add: exampleSpot_def)
  have chain: "spot.isMajorChain exampleChainSpot \<noteq> Some True"
    by (simp add: exampleChainSpot_def exampleSpot_def)
  have fields: "exceeds (spot.distanceFromRoute exampleSpot) c = (c < 0)"
    "spot.isChain exampleSpot = Some False"
    "\<not> missing (spot.openingHours exampleSpot)"
    "\<not> missing (spot.phone exampleSpot)"
    "\<not> missing (spot.website exampleSpot)"
    "exceeds (spot.distanceFromRoute exampleChainSpot) c = (c < 3)"
    "spot.isChain exampleChainSpot = Some True"
    "missing (spot.openingHours exampleChainSpot)"
    "missing (spot.phone exampleChainSpot)"
    "missing (spot.website exampleChainSpot)" for c
    by (simp_all add: exampleChainSpot_def exampleSpot_def missing_def)
  note geometry = exampleSpot_not_backward exampleSpot_distance exampleChainSpot_point
  show ?thesis
    using C1_rating_heuristic [OF plain, of "equatorPoint 0" "equatorPoint 5"]
      C1_rating_heuristic [OF chain, of "equatorPoint 0" "equatorPoint 5"]
    by (simp add: Let_def plain chain fields geometry)
qed

text \<open>
  Claim C2. For every spot flagged as a major chain and all start and end points, the
  rating is exactly 1 star, whatever the other attributes of the spot are.
\<close>

theorem C2_major_chain_one_star:
  assumes "spot.isMajorChain spot = Some True"
  shows "spotRating.stars (calculateSpotRating spot s e) = 1"
  using assms by (simp add: calculateSpotRating_def)

theorem C2_major_chain_one_star_witness:
  "spot.isMajorChain exampleMajorChainSpot = Some True \<and>
   spotRating.stars (calculateSpotRating exampleMajorChainSpot (equatorPoint 0) (equatorPoint 5)) = 1"
proof -
  have major: "spot.isMajorChain exampleMajorChainSpot = Some True"
    by (simp add: exampleMajorChainSpot_def)
  show ?thesis
    using major C2_major_chain_one_star [OF major, of "equatorPoint 0" "equatorPoint 5"]
    by simp
qed

subsection \<open>Removal of duplicates\<close>

text \<open>
  \<open>findIndex\<close> gives the index of an entry exactly when no earlier entry has its
  identifier, so the filter of the program is \<open>keepFirstBy\<close>.
\<close>

lemma findIndexFrom_first:
  "\<forall>y \<in> set pre. \<not> P y \<Longrightarrow> P x \<Longrightarrow> findIndexFrom P (pre @ x # suf) k = k + int (length pre)"
  by (induction pre arbitrary: k) simp_all

lemma findIndexFrom_earlier:
  "\<exists>y \<in> set pre. P y \<Longrightarrow> findIndexFrom P (pre @ rest) k < k + int (length pre)"
proof (induction pre arbitrary: k)
  case Nil
  then show ?case by simp
next
  case (Cons y pre)
  show ?case
  proof (cases "P y")
    case True
    then show ?thesis by simp
  next
    case False
    with Cons.prems have "\<exists>y \<in> set pre. P y" by simp
    from Cons.IH [OF this, of "k + 1"] False show ?thesis by simp
  qed
qed

lemma first_occurrence_test:
  "(int (length pre) = Array_findIndex (\<lambda>s. key s = key x) (pre @ x # suf))
     = (key x \<notin> key ` set pre)"
proof (cases "\<exists>y \<in> set pre. key y = key x")
  case True
  then have "key x \<in> key ` set pre"
    by (metis imageI)
  with findIndexFrom_earlier [of pre "\<lambda>s. key s = key x", OF True, of "x # suf" 0]
  show ?thesis
    by (simp add: Array_findIndex_def)
next
  case False
  then have "\<forall>y \<in> set pre. \<not> key y = key x" by simp
  from findIndexFrom_first [of pre "\<lambda>s. key s = key x", OF this, of x suf 0] False
  show ?thesis
    by (auto simp add: Array_findIndex_def)
qed

lemma filterFrom_keepFirstBy:
  "set seen = key ` set pre \<Longrightarrow>
   filterFrom (\<lambda>x index self. index = Array_findIndex (\<lambda>s. key s = key x) self)
     (pre @ suf) suf (int (length pre)) = keepFirstBy key seen suf"
proof (induction suf arbitrary: pre seen)
  case Nil
  then show ?case by simp
next
  case (Cons x suf)
  have step: "set seen' = key ` set (pre @ [x]) \<Longrightarrow>
    filterFrom (\<lambda>x index self. index = Array_findIndex (\<lambda>s. key s = key x) self)
      (pre @ x # suf) suf (int (length pre) + 1) = keepFirstBy key seen' suf" for seen'
    using Cons.IH [of seen' "pre @ [x]"] by (simp add: add.commute)
  show ?case
  proof (cases "key x \<in> set seen")
    case True
    with Cons.prems have "set seen = key ` set (pre @ [x])" by auto
    from step [OF this] True Cons.prems show ?thesis
      by (simp add: first_occurrence_test)
  next
    case False
    with Cons.prems have "set (key x # seen) = key ` set (pre @ [x])" by auto
    from step [OF this] False Cons.prems show ?thesis
      by (simp add: first_occurrence_test)
  qed
qed

lemma uniqueSpots_keepFirstBy: "uniqueSpots allSpots = keepFirstBy spot.id' [] allSpots"
  using filterFrom_keepFirstBy [of "[]" spot.id' "[]" allSpots]
  by (simp add: uniqueSpots_def Array_filter_def)

text \<open>What keeping the first occurrences means for the identifiers and the order.\<close>

lemma keepFirstBy_ids:
  "key ` set (keepFirstBy key seen xs) = key ` set xs - set seen"
  by (induction xs arbitrary: seen) auto

lemma keepFirstBy_distinct: "distinct (map key (keepFirstBy key seen xs))"
  by (induction xs arbitrary: seen) (auto simp add: keepFirstBy_ids)

lemma keepFirstBy_find:
  "x \<in> set (keepFirstBy key seen xs) \<Longrightarrow> find (\<lambda>s. key s = key x) xs = Some x"
proof (induction xs arbitrary: seen)
  case Nil
  then show ?case by simp
next
  case (Cons y xs)
  show ?case
  proof (cases "key y = key x")
    case True
    have "x \<notin> set (keepFirstBy key (key y # seen) xs)"
      using keepFirstBy_ids [of key "key y # seen" xs] True by auto
    moreover have "x \<notin> set (keepFirstBy key seen xs)" if "key y \<in> set seen"
      using keepFirstBy_ids [of key seen xs] True that by auto
    ultimately have "x = y"
      using Cons.prems by (auto split: if_splits)
    with True show ?thesis by simp
  next
    case False
    with Cons show ?thesis
      by (auto split: if_splits)
  qed
qed

lemma keepFirstBy_subseq: "subseq (keepFirstBy key seen xs) xs"
  by (induction xs arbitrary: seen) auto

text \<open>
  Claim C5. For every list of spots (so for the concatenation of the results of any two
  points), the removal of duplicates keeps exactly the first occurrence of each
  identifier: the identifiers of the output are those of the input, each of them occurs
  once in the output, a kept spot is the first spot of the input with its identifier, and
  the output is in the order of the input.
\<close>

theorem C5_dedup_keeps_first_occurrence:
  "let out = uniqueSpots allSpots
   in spot.id' ` set out = spot.id' ` set allSpots \<and>
      distinct (map spot.id' out) \<and>
      (\<forall>x \<in> set out. find (\<lambda>s. spot.id' s = spot.id' x) allSpots = Some x) \<and>
      subseq out allSpots \<and>
      out = keepFirstBy spot.id' [] allSpots"
proof -
  have "spot.id' ` set (keepFirstBy spot.id' [] allSpots) = spot.id' ` set allSpots"
    by (simp add: keepFirstBy_ids)
  moreover have "distinct (map spot.id' (keepFirstBy spot.id' [] allSpots))"
    by (rule keepFirstBy_distinct)
  moreover have "\<forall>x \<in> set (keepFirstBy spot.id' [] allSpots).
      find (\<lambda>s. spot.id' s = spot.id' x) allSpots = Some x"
    by (rule ballI) (rule keepFirstBy_find)
  moreover have "subseq (keepFirstBy spot.id' [] allSpots) allSpots"
    by (rule keepFirstBy_subseq)
  ultimately show ?thesis
    unfolding Let_def uniqueSpots_keepFirstBy by (intro conjI refl)
qed

lemma example_ids:
  "spot.id' exampleSpot = ''node_1''" "spot.id' exampleOtherSpot = ''node_2''"
  "spot.id' exampleChainSpot = ''node_1''"
  by (simp_all add: exampleSpot_def exampleOtherSpot_def exampleChainSpot_def)

theorem C5_dedup_keeps_first_occurrence_witness:
  "uniqueSpots exampleResults = [exampleSpot, exampleOtherSpot] \<and>
   exampleSpot \<in> set (uniqueSpots exampleResults) \<and>
   find (\<lambda>s. spot.id' s = spot.id' exampleSpot) exampleResults = Some exampleSpot \<and>
   distinct (map spot.id' (uniqueSpots exampleResults))"
proof -
  note claim = C5_dedup_keeps_first_occurrence [of exampleResults, unfolded Let_def]
  have out: "uniqueSpots exampleResults = [exampleSpot, exampleOtherSpot]"
    using claim by (simp add: exampleResults_def example_ids)
  have kept: "exampleSpot \<in> set (uniqueSpots exampleResults)"
    by (simp add: out)
  have all: "\<forall>x \<in> set (uniqueSpots exampleResults).
      find (\<lambda>s. spot.id' s = spot.id' x) exampleResults = Some x"
    using claim by (elim conjE)
  have "find (\<lambda>s. spot.id' s = spot.id' exampleSpot) exampleResults = Some exampleSpot"
    by (rule bspec [OF all kept])
  moreover have "distinct (map spot.id' (uniqueSpots exampleResults))"
    using claim by (elim conjE)
  ultimately show ?thesis
    using out kept by (intro conjI)
qed

subsection \<open>Random selection\<close>

text \<open>A number drawn in \<open>[0, 1)\<close> gives an index \<open>j \<le> i\<close>.\<close>

lemma drawn_index_le:
  assumes "0 \<le> r" "r < 1"
  shows "nat \<lfloor>r * (real i + 1)\<rfloor> \<le> i"
proof -
  have "r * (real i + 1) < real i + 1"
    using assms by (simp add: mult_less_cancel_right1)
  then have "\<lfloor>r * (real i + 1)\<rfloor> < int i + 1"
    unfolding floor_less_iff by simp
  then have "\<lfloor>r * (real i + 1)\<rfloor> \<le> int i"
    by simp
  then show ?thesis
    by (simp only: nat_le_iff)
qed

text \<open>
  The loop draws once per round, keeps the length, permutes the entries, and commutes with
  any function applied to the entries: which positions are swapped does not depend on
  the entries.
\<close>

lemma shuffleLoop_calls: "snd (shuffleLoop rand calls xs i) = calls + i"
  by (induction i arbitrary: calls xs) (simp_all add: Let_def)

lemma shuffleLoop_length: "length (fst (shuffleLoop rand calls xs i)) = length xs"
  by (induction i arbitrary: calls xs) (simp_all add: Let_def)

lemma shuffleLoop_mset:
  assumes "randomInRange rand"
  shows "i < length xs \<Longrightarrow> mset (fst (shuffleLoop rand calls xs i)) = mset xs"
proof (induction i arbitrary: calls xs)
  case 0
  then show ?case by simp
next
  case (Suc i)
  define j where "j = nat \<lfloor>rand calls * (real (Suc i) + 1)\<rfloor>"
  have "j \<le> Suc i"
    using assms unfolding j_def randomInRange_def by (intro drawn_index_le) simp_all
  with Suc.prems have j: "j < length xs"
    by simp
  have "mset (xs[Suc i := xs ! j, j := xs ! Suc i]) = mset xs"
    using j Suc.prems by (rule mset_swap)
  moreover have "i < length (xs[Suc i := xs ! j, j := xs ! Suc i])"
    using Suc.prems by simp
  moreover have "shuffleLoop rand calls xs (Suc i)
      = shuffleLoop rand (calls + 1) (xs[Suc i := xs ! j, j := xs ! Suc i]) i"
    by (simp only: shuffleLoop.simps Let_def j_def [symmetric])
  ultimately show ?case
    using Suc.IH [of "xs[Suc i := xs ! j, j := xs ! Suc i]" "calls + 1"]
    by simp
qed

lemma shuffleLoop_map:
  assumes "randomInRange rand"
  shows "i < length xs \<Longrightarrow>
    fst (shuffleLoop rand calls (map f xs) i) = map f (fst (shuffleLoop rand calls xs i))"
proof (induction i arbitrary: calls xs)
  case 0
  then show ?case by simp
next
  case (Suc i)
  define j where "j = nat \<lfloor>rand calls * (real (Suc i) + 1)\<rfloor>"
  have "j \<le> Suc i"
    using assms unfolding j_def randomInRange_def by (intro drawn_index_le) simp_all
  with Suc.prems have j: "j < length xs"
    by simp
  have swap: "(map f xs)[Suc i := map f xs ! j, j := map f xs ! Suc i]
      = map f (xs[Suc i := xs ! j, j := xs ! Suc i])"
    using Suc.prems j by (simp add: map_update)
  have "i < length (xs[Suc i := xs ! j, j := xs ! Suc i])"
    using Suc.prems by simp
  from Suc.IH [OF this, of "calls + 1"]
  have "fst (shuffleLoop rand (calls + 1) (map f (xs[Suc i := xs ! j, j := xs ! Suc i])) i)
      = map f (fst (shuffleLoop rand (calls + 1) (xs[Suc i := xs ! j, j := xs ! Suc i]) i))" .
  moreover have "shuffleLoop rand calls xs (Suc i)
      = shuffleLoop rand (calls + 1) (xs[Suc i := xs ! j, j := xs ! Suc i]) i"
    by (simp only: shuffleLoop.simps Let_def j_def [symmetric])
  moreover have "shuffleLoop rand calls (map f xs) (Suc i)
      = shuffleLoop rand (calls + 1) (map f (xs[Suc i := xs ! j, j := xs ! Suc i])) i"
    by (simp only: shuffleLoop.simps Let_def j_def [symmetric] swap)
  ultimately show ?case
    by simp
qed

text \<open>The positions from which the shuffled list takes its entries.\<close>

lemma shuffleLoop_positions:
  assumes "randomInRange rand" "i < n"
  obtains ps where "mset ps = mset [0..<n]"
    and "\<And>xs :: 'a list. length xs = n \<Longrightarrow> fst (shuffleLoop rand calls xs i) = map (nth xs) ps"
proof (rule that [of "fst (shuffleLoop rand calls [0..<n] i)"])
  show "mset (fst (shuffleLoop rand calls [0..<n] i)) = mset [0..<n]"
    using assms by (simp add: shuffleLoop_mset)
next
  fix xs :: "'a list"
  assume "length xs = n"
  then have "xs = map (nth xs) [0..<n]"
    by (metis map_nth)
  then have "fst (shuffleLoop rand calls xs i) = fst (shuffleLoop rand calls (map (nth xs) [0..<n]) i)"
    by simp
  also have "\<dots> = map (nth xs) (fst (shuffleLoop rand calls [0..<n] i))"
    using assms by (simp add: shuffleLoop_map)
  finally show "fst (shuffleLoop rand calls xs i) = map (nth xs) (fst (shuffleLoop rand calls [0..<n] i))" .
qed

lemma take_shuffled_positions:
  assumes "randomInRange rand" "k < n"
  obtains ps where "length ps = k" and "distinct ps" and "set ps \<subseteq> {..<n}"
    and "\<And>xs :: 'a list. length xs = n \<Longrightarrow>
       take k (fst (shuffleLoop rand calls xs (n - 1))) = map (nth xs) ps"
proof -
  from assms have less: "n - 1 < n"
    by simp
  show thesis
  proof (rule shuffleLoop_positions [OF assms(1) less, where ?'a = 'a, of calls])
    fix perm
    assume perm: "mset perm = mset [0..<n]"
      and shuffled: "\<And>xs :: 'a list. length xs = n \<Longrightarrow>
        fst (shuffleLoop rand calls xs (n - 1)) = map (nth xs) perm"
    show thesis
    proof (rule that [of "take k perm"])
      have "length perm = n"
        using mset_eq_length [OF perm] by simp
      then show "length (take k perm) = k"
        using assms by simp
      have "distinct perm"
        using mset_eq_imp_distinct_iff [OF perm] by simp
      then show "distinct (take k perm)"
        by (rule distinct_take)
      have "set perm = set [0..<n]"
        by (rule mset_eq_setD [OF perm])
      then have "set perm = {..<n}"
        by (simp add: atLeast0LessThan)
      then show "set (take k perm) \<subseteq> {..<n}"
        using set_take_subset [of k perm] by simp
      show "take k (fst (shuffleLoop rand calls xs (n - 1))) = map (nth xs) (take k perm)"
        if "length xs = n" for xs :: "'a list"
        using that by (simp only: shuffled take_map)
    qed
  qed
qed

lemma take_shuffled_permutation:
  assumes "randomInRange rand" "k < length xs"
  shows "\<exists>ys. mset ys = mset xs \<and> take k (fst (shuffleLoop rand calls xs (length xs - 1))) = take k ys"
proof (intro exI conjI)
  show "mset (fst (shuffleLoop rand calls xs (length xs - 1))) = mset xs"
    using assms by (intro shuffleLoop_mset) simp_all
qed (rule refl)

lemma selectRandomMidPoints_fst:
  "fst (selectRandomMidPoints rand calls midPoints k) =
     (if length midPoints \<le> k then midPoints
      else take k (fst (shuffleLoop rand calls midPoints (length midPoints - 1))))"
  by (cases "shuffleLoop rand calls midPoints (length midPoints - 1)")
    (simp add: selectRandomMidPoints_def)

lemma selectRandomSpotsWithoutRating_fst:
  "fst (selectRandomSpotsWithoutRating rand calls spots k) =
     (if length spots \<le> k then spots
      else take k (fst (shuffleLoop rand calls spots (length spots - 1))))"
  by (cases "shuffleLoop rand calls spots (length spots - 1)")
    (simp add: selectRandomSpotsWithoutRating_def)

text \<open>
  Claim C6. For every list and every count \<open>k\<close>, the random selection of sample points
  and of final spots returns the list unchanged when its length is at most \<open>k\<close>, and
  otherwise \<open>k\<close> entries from \<open>k\<close> distinct positions of the list, the first \<open>k\<close>
  entries of a permutation of it. The positions are the same for all lists of spots of
  that length: the rating of a spot has no weight in the selection. The numbers drawn are
  in \<open>[0, 1)\<close>, as \<open>Math.random\<close> promises.
\<close>

theorem C6_random_selection:
  assumes "randomInRange rand"
  shows
    "(length midPoints \<le> k \<longrightarrow> fst (selectRandomMidPoints rand calls midPoints k) = midPoints) \<and>
     (length spots \<le> k \<longrightarrow> fst (selectRandomSpotsWithoutRating rand calls spots k) = spots) \<and>
     (k < length midPoints \<longrightarrow>
        length (fst (selectRandomMidPoints rand calls midPoints k)) = k \<and>
        (\<exists>ys. mset ys = mset midPoints \<and>
           fst (selectRandomMidPoints rand calls midPoints k) = take k ys) \<and>
        (\<exists>ps. length ps = k \<and> distinct ps \<and> set ps \<subseteq> {..<length midPoints} \<and>
           fst (selectRandomMidPoints rand calls midPoints k) = map (nth midPoints) ps)) \<and>
     (k < length spots \<longrightarrow>
        length (fst (selectRandomSpotsWithoutRating rand calls spots k)) = k \<and>
        (\<exists>ys. mset ys = mset spots \<and>
           fst (selectRandomSpotsWithoutRating rand calls spots k) = take k ys) \<and>
        (\<exists>ps. length ps = k \<and> distinct ps \<and> set ps \<subseteq> {..<length spots} \<and>
           (\<forall>spots'. length spots' = length spots \<longrightarrow>
              fst (selectRandomSpotsWithoutRating rand calls spots' k) = map (nth spots') ps)))"
proof (intro conjI impI)
  assume "length midPoints \<le> k"
  then show "fst (selectRandomMidPoints rand calls midPoints k) = midPoints"
    by (simp add: selectRandomMidPoints_fst)
next
  assume "length spots \<le> k"
  then show "fst (selectRandomSpotsWithoutRating rand calls spots k) = spots"
    by (simp add: selectRandomSpotsWithoutRating_fst)
next
  assume k: "k < length midPoints"
  then have sel: "fst (selectRandomMidPoints rand calls midPoints k)
      = take k (fst (shuffleLoop rand calls midPoints (length midPoints - 1)))"
    by (simp add: selectRandomMidPoints_fst)
  from k show "length (fst (selectRandomMidPoints rand calls midPoints k)) = k"
    by (simp add: sel shuffleLoop_length)
  show "\<exists>ys. mset ys = mset midPoints \<and> fst (selectRandomMidPoints rand calls midPoints k) = take k ys"
    unfolding sel by (rule take_shuffled_permutation [OF assms k])
  show "\<exists>ps. length ps = k \<and> distinct ps \<and> set ps \<subseteq> {..<length midPoints} \<and>
      fst (selectRandomMidPoints rand calls midPoints k) = map (nth midPoints) ps"
  proof (rule take_shuffled_positions [OF assms k, where ?'a = point, of calls])
    fix ps
    assume "length ps = k" and "distinct ps" and "set ps \<subseteq> {..<length midPoints}"
      and "\<And>xs :: point list. length xs = length midPoints \<Longrightarrow>
        take k (fst (shuffleLoop rand calls xs (length midPoints - 1))) = map (nth xs) ps"
    then show ?thesis
      unfolding sel by (intro exI [of _ ps] conjI) simp_all
  qed
next
  assume k: "k < length spots"
  then have sel: "fst (selectRandomSpotsWithoutRating rand calls spots' k)
      = take k (fst (shuffleLoop rand calls spots' (length spots - 1)))"
    if "length spots' = length spots" for spots'
    using that by (simp add: selectRandomSpotsWithoutRating_fst)
  from k show "length (fst (selectRandomSpotsWithoutRating rand calls spots k)) = k"
    by (simp add: sel shuffleLoop_length)
  show "\<exists>ys. mset ys = mset spots \<and> fst (selectRandomSpotsWithoutRating rand calls spots k) = take k ys"
    unfolding sel [OF refl] by (rule take_shuffled_permutation [OF assms k])
  show "\<exists>ps. length ps = k \<and> distinct ps \<and> set ps \<subseteq> {..<length spots} \<and>
      (\<forall>spots'. length spots' = length spots \<longrightarrow>
         fst (selectRandomSpotsWithoutRating rand calls spots' k) = map (nth spots') ps)"
  proof (rule take_shuffled_positions [OF assms k, where ?'a = spot, of calls])
    fix ps
    assume ps: "length ps = k" "distinct ps" "set ps \<subseteq> {..<length spots}"
      and shuffled: "\<And>xs :: spot list. length xs = length spots \<Longrightarrow>
        take k (fst (shuffleLoop rand calls xs (length spots - 1))) = map (nth xs) ps"
    have "\<forall>spots'. length spots' = length spots \<longrightarrow>
        fst (selectRandomSpotsWithoutRating rand calls spots' k) = map (nth spots') ps"
    proof (intro allI impI)
      fix spots' :: "spot list"
      assume "length spots' = length spots"
      then show "fst (selectRandomSpotsWithoutRating rand calls spots' k) = map (nth spots') ps"
        by (simp only: sel shuffled)
    qed
    with ps show ?thesis
      by (intro exI [of _ ps] conjI)
  qed
qed

lemma exampleRandom_in_range: "randomInRange exampleRandom"
  by (simp add: randomInRange_def exampleRandom_def)

lemma example_selection:
  "fst (selectRandomMidPoints exampleRandom calls [a, b, c, d, e] 3) = [a, d, b]"
  by (simp add: selectRandomMidPoints_fst exampleRandom_def Let_def)

theorem C6_random_selection_witness:
  "randomInRange exampleRandom \<and>
   fst (selectRandomMidPoints exampleRandom 0 examplePoints 5) = examplePoints \<and>
   fst (selectRandomSpotsWithoutRating exampleRandom 0 exampleResults 3) = exampleResults \<and>
   length (fst (selectRandomMidPoints exampleRandom 0 examplePoints 3)) = 3 \<and>
   fst (selectRandomMidPoints exampleRandom 0 examplePoints 3)
     = [equatorPoint 1, equatorPoint 4, equatorPoint 2] \<and>
   length (fst (selectRandomSpotsWithoutRating exampleRandom 0 exampleResults 2)) = 2"
proof -
  note claim = C6_random_selection [OF exampleRandom_in_range]
  have lengths: "length examplePoints = 5" "length exampleResults = 3"
    by (simp_all add: examplePoints_def exampleResults_def)
  have "fst (selectRandomMidPoints exampleRandom 0 examplePoints 5) = examplePoints"
    using claim [where midPoints = examplePoints and spots = exampleResults and k = 5 and calls = 0] lengths by simp
  moreover have "fst (selectRandomSpotsWithoutRating exampleRandom 0 exampleResults 3) = exampleResults"
    using claim [where midPoints = examplePoints and spots = exampleResults and k = 3 and calls = 0] lengths by simp
  moreover have "length (fst (selectRandomMidPoints exampleRandom 0 examplePoints 3)) = 3"
    using claim [where midPoints = examplePoints and spots = exampleResults and k = 3 and calls = 0] lengths by simp
  moreover have "fst (selectRandomMidPoints exampleRandom 0 examplePoints 3)
      = [equatorPoint 1, equatorPoint 4, equatorPoint 2]"
    by (simp add: examplePoints_def example_selection)
  moreover have "length (fst (selectRandomSpotsWithoutRating exampleRandom 0 exampleResults 2)) = 2"
    using claim [where midPoints = examplePoints and spots = exampleResults and k = 2 and calls = 0] lengths by simp
  ultimately show ?thesis
    using exampleRandom_in_range by (intro conjI)
qed

subsection \<open>Map clicks\<close>

text \<open>What a click does in each of the three cases of \<open>handleMapClick\<close>.\<close>

lemma handleMapClick_start:
  "startPoint st = None \<Longrightarrow>
   startPoint (handleMapClick lat' lng' st) =
     Some \<lparr>point.lat = lat', point.lng = lng',
            point.name = Some (toFixed 4 lat' @ '', '' @ toFixed 4 lng')\<rparr> \<and>
   endPoint (handleMapClick lat' lng' st) = endPoint st"
  by (simp add: handleMapClick_def showToast_def Let_def)

lemma handleMapClick_end:
  "startPoint st \<noteq> None \<Longrightarrow> endPoint st = None \<Longrightarrow>
   endPoint (handleMapClick lat' lng' st) =
     Some \<lparr>point.lat = lat', point.lng = lng',
            point.name = Some (toFixed 4 lat' @ '', '' @ toFixed 4 lng')\<rparr> \<and>
   startPoint (handleMapClick lat' lng' st) = startPoint st"
  by (simp add: handleMapClick_def showToast_def Let_def)

lemma handleMapClick_both:
  "startPoint st \<noteq> None \<Longrightarrow> endPoint st \<noteq> None \<Longrightarrow>
   startPoint (handleMapClick lat' lng' st) = startPoint st \<and>
   endPoint (handleMapClick lat' lng' st) = endPoint st"
  by (simp add: handleMapClick_def showToast_def Let_def)

lemma handleMapClicks_both:
  "startPoint st \<noteq> None \<Longrightarrow> endPoint st \<noteq> None \<Longrightarrow>
   startPoint (handleMapClicks clicks st) = startPoint st \<and>
   endPoint (handleMapClicks clicks st) = endPoint st"
proof (induction clicks arbitrary: st)
  case Nil
  then show ?case by (simp add: handleMapClicks_def)
next
  case (Cons click clicks)
  obtain lat' lng' where click: "click = (lat', lng')"
    by (cases click)
  from Cons.prems have both: "startPoint (handleMapClick lat' lng' st) = startPoint st"
    "endPoint (handleMapClick lat' lng' st) = endPoint st"
    by (simp_all add: handleMapClick_both)
  with Cons.prems have "startPoint (handleMapClick lat' lng' st) \<noteq> None"
    "endPoint (handleMapClick lat' lng' st) \<noteq> None"
    by simp_all
  from Cons.IH [OF this] both show ?case
    by (simp add: handleMapClicks_def click)
qed

lemma handleReset_points:
  "startPoint (handleReset st) = None \<and> endPoint (handleReset st) = None"
  by (simp add: handleReset_def showToast_def)

text \<open>
  Claim C7, as stated: the first click sets the start point, the second click sets the
  end point, and further clicks change nothing until reset. The application starts with
  both points set, so its first click does not set the start point and its second click
  does not set the end point: after clicks at latitude 35 and at latitude 36 the points
  still have the latitudes of the initial route.
\<close>

theorem C7_first_click_counterexample:
  "map_option point.lat (startPoint (handleMapClick 35 139 initialState)) = Some 35.6896 \<and>
   map_option point.lat (startPoint (handleMapClick 35 139 initialState)) \<noteq> Some 35 \<and>
   map_option point.lat (endPoint (handleMapClick 36 140 (handleMapClick 35 139 initialState)))
     = Some 35.6580"
  by (simp add: handleMapClick_def showToast_def initialState_def Let_def)

text \<open>
  Claim C7, amended. A click in a state without a start point sets the start point and
  leaves the end point; a click in a state with a start point and without an end point
  sets the end point and leaves the start point; while both are set, clicks leave both
  unchanged; reset clears both. So after a reset the first click sets the start, the
  second click sets the end, and further clicks change neither; and in the state with
  which the application starts, where both points are set, clicks change neither.
\<close>

theorem C7_clicks_after_reset:
  "(startPoint st = None \<longrightarrow>
      startPoint (handleMapClick lat' lng' st) =
        Some \<lparr>point.lat = lat', point.lng = lng',
               point.name = Some (toFixed 4 lat' @ '', '' @ toFixed 4 lng')\<rparr> \<and>
      endPoint (handleMapClick lat' lng' st) = endPoint st) \<and>
   (startPoint st \<noteq> None \<and> endPoint st = None \<longrightarrow>
      endPoint (handleMapClick lat' lng' st) =
        Some \<lparr>point.lat = lat', point.lng = lng',
               point.name = Some (toFixed 4 lat' @ '', '' @ toFixed 4 lng')\<rparr> \<and>
      startPoint (handleMapClick lat' lng' st) = startPoint st) \<and>
   (startPoint st \<noteq> None \<and> endPoint st \<noteq> None \<longrightarrow>
      startPoint (handleMapClicks clicks st) = startPoint st \<and>
      endPoint (handleMapClicks clicks st) = endPoint st) \<and>
   startPoint (handleReset st) = None \<and> endPoint (handleReset st) = None \<and>
   (let first = handleMapClick lat1 lng1 (handleReset st);
        second = handleMapClick lat2 lng2 first;
        later = handleMapClicks clicks second
    in map_option point.lat (startPoint first) = Some lat1 \<and>
       map_option point.lng (startPoint first) = Some lng1 \<and>
       endPoint first = None \<and>
       startPoint second = startPoint first \<and>
       map_option point.lat (endPoint second) = Some lat2 \<and>
       map_option point.lng (endPoint second) = Some lng2 \<and>
       startPoint later = startPoint second \<and>
       endPoint later = endPoint second) \<and>
   startPoint (handleMapClicks clicks initialState) = startPoint initialState \<and>
   endPoint (handleMapClicks clicks initialState) = endPoint initialState"
proof -
  define first where "first = handleMapClick lat1 lng1 (handleReset st)"
  define second where "second = handleMapClick lat2 lng2 first"
  have first: "startPoint first = Some \<lparr>point.lat = lat1, point.lng = lng1,
      point.name = Some (toFixed 4 lat1 @ '', '' @ toFixed 4 lng1)\<rparr>" "endPoint first = None"
    unfolding first_def using handleMapClick_start [of "handleReset st" lat1 lng1]
    by (simp_all add: handleReset_points)
  then have second: "endPoint second = Some \<lparr>point.lat = lat2, point.lng = lng2,
      point.name = Some (toFixed 4 lat2 @ '', '' @ toFixed 4 lng2)\<rparr>"
    "startPoint second = startPoint first"
    unfolding second_def using handleMapClick_end [of first lat2 lng2]
    by simp_all
  have later: "startPoint (handleMapClicks clicks second) = startPoint second \<and>
      endPoint (handleMapClicks clicks second) = endPoint second"
    by (rule handleMapClicks_both) (simp_all add: first second)
  have initial: "startPoint (handleMapClicks clicks initialState) = startPoint initialState \<and>
      endPoint (handleMapClicks clicks initialState) = endPoint initialState"
    by (rule handleMapClicks_both) (simp_all add: initialState_def)
  show ?thesis
    unfolding Let_def first_def [symmetric] second_def [symmetric]
    using handleMapClick_start [of st lat' lng'] handleMapClick_end [of st lat' lng']
      handleMapClicks_both [of st clicks] handleReset_points [of st] later initial
    by (simp add: first second)
qed

theorem C7_clicks_after_reset_witness:
  "startPoint (handleReset initialState) = None \<and>
   map_option point.lat (startPoint (handleMapClick 1 2 (handleReset initialState))) = Some 1 \<and>
   endPoint (handleMapClick 1 2 (handleReset initialState)) = None \<and>
   startPoint (handleMapClick 1 2 (handleReset initialState)) \<noteq> None \<and>
   map_option point.lat
     (endPoint (handleMapClick 3 4 (handleMapClick 1 2 (handleReset initialState)))) = Some 3 \<and>
   startPoint (handleMapClick 3 4 (handleMapClick 1 2 (handleReset initialState)))
     = startPoint (handleMapClick 1 2 (handleReset initialState)) \<and>
   startPoint initialState \<noteq> None \<and> endPoint initialState \<noteq> None \<and>
   startPoint (handleMapClicks [(5, 6), (7, 8)] initialState) = startPoint initialState \<and>
   endPoint (handleMapClicks [(5, 6), (7, 8)] initialState) = endPoint initialState"
proof -
  have set: "startPoint initialState \<noteq> None" "endPoint initialState \<noteq> None"
    by (simp_all add: initialState_def)
  have reset: "startPoint (handleReset initialState) = None"
    "endPoint (handleReset initialState) = None"
    using C7_clicks_after_reset [where st = initialState and lat' = 0 and lng' = 0
        and clicks = "[]" and ?lat1.0 = 0 and ?lng1.0 = 0 and ?lat2.0 = 0 and ?lng2.0 = 0]
    by simp_all
  have first: "startPoint (handleMapClick 1 2 (handleReset initialState)) =
      Some \<lparr>point.lat = 1, point.lng = 2, point.name = Some (toFixed 4 1 @ '', '' @ toFixed 4 2)\<rparr>"
    "endPoint (handleMapClick 1 2 (handleReset initialState)) = None"
    using C7_clicks_after_reset [where st = "handleReset initialState" and lat' = 1 and lng' = 2
        and clicks = "[]" and ?lat1.0 = 0 and ?lng1.0 = 0 and ?lat2.0 = 0 and ?lng2.0 = 0] reset
    by simp_all
  have second: "endPoint (handleMapClick 3 4 (handleMapClick 1 2 (handleReset initialState))) =
      Some \<lparr>point.lat = 3, point.lng = 4, point.name = Some (toFixed 4 3 @ '', '' @ toFixed 4 4)\<rparr>"
    "startPoint (handleMapClick 3 4 (handleMapClick 1 2 (handleReset initialState)))
      = startPoint (handleMapClick 1 2 (handleReset initialState))"
    using C7_clicks_after_reset [where st = "handleMapClick 1 2 (handleReset initialState)"
        and lat' = 3 and lng' = 4
        and clicks = "[]" and ?lat1.0 = 0 and ?lng1.0 = 0 and ?lat2.0 = 0 and ?lng2.0 = 0] first
    by simp_all
  have later: "startPoint (handleMapClicks [(5, 6), (7, 8)] initialState) = startPoint initialState"
    "endPoint (handleMapClicks [(5, 6), (7, 8)] initialState) = endPoint initialState"
    using C7_clicks_after_reset [where st = initialState and clicks = "[(5, 6), (7, 8)]"
        and lat' = 0 and lng' = 0 and ?lat1.0 = 0 and ?lng1.0 = 0 and ?lat2.0 = 0 and ?lng2.0 = 0] set
    by simp_all
  show ?thesis
    by (simp add: set reset first second later)
qed

subsection \<open>A roll with failing requests\<close>

text \<open>
  A request that fails gives an exception and no candidates; the loop then goes on with
  the spots it has. So the loop collects the candidates of all points in their order.
\<close>

lemma searchSpots_candidates:
  "searchSpots source call midPoint midPoint r cat = Inr spots \<Longrightarrow>
     candidatesOf source call r cat midPoint = spots"
  "searchSpots source call midPoint midPoint r cat = Inl err \<Longrightarrow>
     candidatesOf source call r cat midPoint = []"
  by (auto simp add: searchSpots_def candidatesOf_def Let_def
      split: fetchResult.splits option.splits if_splits)

lemma searchSpots_rejected:
  "source call (calculateMidPoint midPoint midPoint) r cat = Rejected \<Longrightarrow>
     searchSpots source call midPoint midPoint r cat = Inl FetchRejected"
  by (simp add: searchSpots_def)

lemma searchSpots_status:
  "source call (calculateMidPoint midPoint midPoint) r cat = Resolved status body \<Longrightarrow>
   \<not> (200 \<le> status \<and> status \<le> 299) \<Longrightarrow>
     searchSpots source call midPoint midPoint r cat = Inl (OverpassApiError status)"
  by (simp add: searchSpots_def)

lemma fetchLoop_skip:
  "searchSpots source call midPoint midPoint r cat = Inl err \<Longrightarrow>
   fetchLoop source call r cat (midPoint # rest) allSpots = fetchLoop source (call + 1) r cat rest allSpots"
  by simp

lemma enumerate_shift:
  "map (\<lambda>(i, p). f (call + i) p) (enumerate (Suc n) ps) =
   map (\<lambda>(i, p). f (Suc call + i) p) (enumerate n ps)"
  by (induction ps arbitrary: n) simp_all

lemma fetchLoop_candidates:
  "fetchLoop source call r cat midPoints allSpots =
     allSpots @ concat (map (\<lambda>(i, midPoint). candidatesOf source (call + i) r cat midPoint)
                          (enumerate 0 midPoints))"
proof (induction midPoints arbitrary: call allSpots)
  case Nil
  then show ?case by simp
next
  case (Cons midPoint rest)
  have rest: "fetchLoop source (call + 1) r cat rest acc =
      acc @ concat (map (\<lambda>(i, midPoint). candidatesOf source (call + i) r cat midPoint)
                       (enumerate 1 rest))" for acc
    using Cons.IH [of "call + 1" acc] enumerate_shift [of "\<lambda>c. candidatesOf source c r cat" call 0 rest]
    by simp
  show ?case
  proof (cases "searchSpots source call midPoint midPoint r cat")
    case (Inl err)
    with rest [of allSpots] searchSpots_candidates(2) [OF Inl] show ?thesis
      by simp
  next
    case (Inr spots)
    with rest [of "allSpots @ spots"] searchSpots_candidates(1) [OF Inr] show ?thesis
      by simp
  qed
qed

text \<open>
  The \<open>try\<close> block of a roll always ends with the selected spots, and the handler shows
  at most a warning.
\<close>

lemma gachaRollTry_result:
  "gachaRollTry rand source s e cat =
     (let selection = selectRandomMidPoints rand 0 (calculateNearDestinationPoints s e 5) 3;
          allSpots = concat (map (\<lambda>(i, midPoint).
                        candidatesOf source i (calculateSearchRadius s e) cat midPoint)
                      (enumerate 0 (fst selection)))
      in Inr (fst (selectRandomSpotsWithoutRating rand (snd selection)
                (addRatingsToSpots (uniqueSpots allSpots) s e) 3)))"
proof -
  obtain selectedMidPoints calls
    where a: "selectRandomMidPoints rand 0 (calculateNearDestinationPoints s e 5) 3
      = (selectedMidPoints, calls)"
    by (cases "selectRandomMidPoints rand 0 (calculateNearDestinationPoints s e 5) 3")
  define allSpots where "allSpots =
    concat (map (\<lambda>(i, midPoint). candidatesOf source i (calculateSearchRadius s e) cat midPoint)
             (enumerate 0 selectedMidPoints))"
  have fetched: "fetchLoop source 0 (calculateSearchRadius s e) cat selectedMidPoints [] = allSpots"
    unfolding allSpots_def fetchLoop_candidates by simp
  obtain selectedSpots calls'
    where b: "selectRandomSpotsWithoutRating rand calls
      (addRatingsToSpots (uniqueSpots allSpots) s e) 3 = (selectedSpots, calls')"
    by (cases "selectRandomSpotsWithoutRating rand calls
      (addRatingsToSpots (uniqueSpots allSpots) s e) 3")
  have "gachaRollTry rand source s e cat = Inr selectedSpots"
    by (simp add: gachaRollTry_def Let_def a b fetched)
  then show ?thesis
    by (simp add: Let_def a b allSpots_def [symmetric])
qed

lemma gachaRollTry_completes:
  obtains spots where "gachaRollTry rand source s e cat = Inr spots"
  using gachaRollTry_result [of rand source s e cat] by (simp add: Let_def)

lemma handleGachaRoll_not_loading:
  assumes "startPoint st \<noteq> None" "endPoint st \<noteq> None"
  shows "\<not> isLoading (handleGachaRoll now rand source st)"
proof -
  from assms obtain s e where points: "startPoint st = Some s" "endPoint st = Some e"
    by auto
  obtain spots where "gachaRollTry rand source s e (selectedCategory st) = Inr spots"
    by (rule gachaRollTry_completes)
  with points show ?thesis
    by (simp add: handleGachaRoll_def Let_def showToast_def)
qed

lemma handleGachaRoll_toasts:
  "toasts (handleGachaRoll now rand source st) = toasts st \<or>
   (\<exists>message. toasts (handleGachaRoll now rand source st) = toasts st @ [Toast ToastWarning message])"
proof (cases "startPoint st")
  case None
  then show ?thesis
    by (simp add: handleGachaRoll_def)
next
  case (Some s)
  note start = this
  show ?thesis
  proof (cases "endPoint st")
    case None
    with start show ?thesis
      by (simp add: handleGachaRoll_def)
  next
    case (Some e)
    obtain spots where "gachaRollTry rand source s e (selectedCategory st) = Inr spots"
      by (rule gachaRollTry_completes)
    with start Some show ?thesis
      by (simp add: handleGachaRoll_def Let_def showToast_def)
  qed
qed

lemma handleGachaRoll_no_error_toast:
  assumes "Toast ToastError message \<in> set (toasts (handleGachaRoll now rand source st))"
  shows "Toast ToastError message \<in> set (toasts st)"
  using assms handleGachaRoll_toasts [of now rand source st] by auto

text \<open>
  Claim C9. During a roll, a failure of the query for one selected sample point (the
  request is rejected, or the response has a status outside 200-299) is caught, and the
  point contributes no candidates; the roll completes and aggregates the candidates
  returned for the other sample points. A failing point never makes the roll fail: the
  \<open>try\<close> block of the roll ends with the selected spots, the loading flag is cleared,
  and the roll shows no error notification. The numbers drawn are in \<open>[0, 1)\<close>.
\<close>

theorem C9_failed_point_is_skipped:
  assumes "randomInRange rand"
  shows
  "(source call (calculateMidPoint midPoint midPoint) r cat = Rejected \<longrightarrow>
      searchSpots source call midPoint midPoint r cat = Inl FetchRejected) \<and>
   (source call (calculateMidPoint midPoint midPoint) r cat = Resolved status body \<and>
      \<not> (200 \<le> status \<and> status \<le> 299) \<longrightarrow>
      searchSpots source call midPoint midPoint r cat = Inl (OverpassApiError status)) \<and>
   (searchSpots source call midPoint midPoint r cat = Inl err \<longrightarrow>
      candidatesOf source call r cat midPoint = [] \<and>
      fetchLoop source call r cat (midPoint # rest) allSpots =
        fetchLoop source (call + 1) r cat rest allSpots) \<and>
   fetchLoop source call r cat midPoints allSpots =
     allSpots @ concat (map (\<lambda>(i, midPoint). candidatesOf source (call + i) r cat midPoint)
                          (enumerate 0 midPoints)) \<and>
   gachaRollTry rand source s e cat =
     (let selection = selectRandomMidPoints rand 0 (calculateNearDestinationPoints s e 5) 3;
          allSpots = concat (map (\<lambda>(i, midPoint).
                        candidatesOf source i (calculateSearchRadius s e) cat midPoint)
                      (enumerate 0 (fst selection)))
      in Inr (fst (selectRandomSpotsWithoutRating rand (snd selection)
                (addRatingsToSpots (uniqueSpots allSpots) s e) 3))) \<and>
   (startPoint st \<noteq> None \<and> endPoint st \<noteq> None \<longrightarrow>
      \<not> isLoading (handleGachaRoll now rand source st)) \<and>
   (\<forall>message. Toast ToastError message \<in> set (toasts (handleGachaRoll now rand source st)) \<longrightarrow>
      Toast ToastError message \<in> set (toasts st))"
proof (intro conjI impI allI)
  assume "source call (calculateMidPoint midPoint midPoint) r cat = Rejected"
  then show "searchSpots source call midPoint midPoint r cat = Inl FetchRejected"
    by (rule searchSpots_rejected)
next
  assume "source call (calculateMidPoint midPoint midPoint) r cat = Resolved status body \<and>
      \<not> (200 \<le> status \<and> status \<le> 299)"
  then show "searchSpots source call midPoint midPoint r cat = Inl (OverpassApiError status)"
    using searchSpots_status [of source call midPoint r cat status body] by blast
next
  assume failed: "searchSpots source call midPoint midPoint r cat = Inl err"
  then show "candidatesOf source call r cat midPoint = []"
    by (rule searchSpots_candidates(2))
  from failed show "fetchLoop source call r cat (midPoint # rest) allSpots =
      fetchLoop source (call + 1) r cat rest allSpots"
    by (rule fetchLoop_skip)
next
  show "fetchLoop source call r cat midPoints allSpots =
     allSpots @ concat (map (\<lambda>(i, midPoint). candidatesOf source (call + i) r cat midPoint)
                          (enumerate 0 midPoints))"
    by (rule fetchLoop_candidates)
next
  show "gachaRollTry rand source s e cat =
     (let selection = selectRandomMidPoints rand 0 (calculateNearDestinationPoints s e 5) 3;
          allSpots = concat (map (\<lambda>(i, midPoint).
                        candidatesOf source i (calculateSearchRadius s e) cat midPoint)
                      (enumerate 0 (fst selection)))
      in Inr (fst (selectRandomSpotsWithoutRating rand (snd selection)
                (addRatingsToSpots (uniqueSpots allSpots) s e) 3)))"
    by (rule gachaRollTry_result)
next
  assume "startPoint st \<noteq> None \<and> endPoint st \<noteq> None"
  then show "\<not> isLoading (handleGachaRoll now rand source st)"
    using handleGachaRoll_not_loading [of st now rand source] by blast
next
  fix message
  assume "Toast ToastError message \<in> set (toasts (handleGachaRoll now rand source st))"
  then show "Toast ToastError message \<in> set (toasts st)"
    by (rule handleGachaRoll_no_error_toast)
qed

text \<open>
  A roll in which two of the three requests fail: the spots of the roll are those of the
  one request that is answered.
\<close>

lemma calculateNearDestinationPoints_length:
  "length (calculateNearDestinationPoints s e n) = n"
  by (simp add: calculateNearDestinationPoints_def nearDestinationLoop_map)

lemma three_selected:
  obtains a b c calls
  where "selectRandomMidPoints exampleRandom 0 (calculateNearDestinationPoints s e 5) 3
    = ([a, b, c], calls)"
proof -
  have "length (fst (selectRandomMidPoints exampleRandom 0 (calculateNearDestinationPoints s e 5) 3)) = 3"
    by (simp add: selectRandomMidPoints_fst calculateNearDestinationPoints_length shuffleLoop_length)
  then obtain a b c
    where "fst (selectRandomMidPoints exampleRandom 0 (calculateNearDestinationPoints s e 5) 3) = [a, b, c]"
    by (auto simp add: numeral_eq_Suc length_Suc_conv)
  then have "selectRandomMidPoints exampleRandom 0 (calculateNearDestinationPoints s e 5) 3
      = ([a, b, c], snd (selectRandomMidPoints exampleRandom 0 (calculateNearDestinationPoints s e 5) 3))"
    by (metis prod.collapse)
  then show thesis
    by (rule that)
qed

lemma exampleSource_candidates:
  "concat (map (\<lambda>(i, midPoint). candidatesOf exampleSource i r cat midPoint) (enumerate 0 [a, b, c]))
     = convertToSpots exampleElements"
  by (simp add: candidatesOf_def exampleSource_def)

lemma showInt_7_8: "showInt 7 = ''7''" "showInt 8 = ''8''"
  by (simp_all add: showInt_def showNat.simps [of 7] showNat.simps [of 8] digit_def)

lemma exampleElements_ids:
  "map spot.id' (convertToSpots exampleElements) = [''node_7'', ''node_8'']"
  by (simp add: convertToSpots_def exampleElements_def exampleTags_def Let_def showInt_7_8)

lemma keepFirstBy_distinct_same:
  "distinct (map key xs) \<Longrightarrow> set (map key xs) \<inter> set seen = {} \<Longrightarrow>
   keepFirstBy key seen xs = xs"
  by (induction xs arbitrary: seen) auto

lemma addRatingsToSpots_ids: "map spot.id' (addRatingsToSpots spots s e) = map spot.id' spots"
  by (simp add: addRatingsToSpots_def Let_def)

lemma example_roll:
  "map spot.id' (gachaSpots (handleGachaRoll now exampleRandom exampleSource exampleState))
     = [''node_7'', ''node_8'']"
proof -
  define s e where "s = equatorPoint 0" and "e = equatorPoint 5"
  obtain a b c calls
    where selection: "selectRandomMidPoints exampleRandom 0 (calculateNearDestinationPoints s e 5) 3
      = ([a, b, c], calls)"
    by (rule three_selected)
  have unique: "uniqueSpots (convertToSpots exampleElements) = convertToSpots exampleElements"
    unfolding uniqueSpots_keepFirstBy
    by (rule keepFirstBy_distinct_same) (simp_all add: exampleElements_ids)
  have "length (convertToSpots exampleElements) = 2"
    using arg_cong [OF exampleElements_ids, of length] by simp
  then have few: "length (addRatingsToSpots (convertToSpots exampleElements) s e) \<le> 3"
    by (simp add: addRatingsToSpots_def)
  have roll: "gachaRollTry exampleRandom exampleSource s e Restaurant
      = Inr (addRatingsToSpots (convertToSpots exampleElements) s e)"
  proof -
    have "gachaRollTry exampleRandom exampleSource s e Restaurant
        = Inr (fst (selectRandomSpotsWithoutRating exampleRandom calls
            (addRatingsToSpots (uniqueSpots (convertToSpots exampleElements)) s e) 3))"
      by (simp only: gachaRollTry_result Let_def selection fst_conv snd_conv
          exampleSource_candidates)
    then show ?thesis
      using few by (simp add: unique selectRandomSpotsWithoutRating_fst)
  qed
  have "length (addRatingsToSpots (convertToSpots exampleElements) s e) \<noteq> 0"
    using arg_cong [OF exampleElements_ids, of length] by (simp add: addRatingsToSpots_def)
  then have "gachaSpots (handleGachaRoll now exampleRandom exampleSource exampleState)
      = addRatingsToSpots (convertToSpots exampleElements) s e"
    using roll
    by (simp add: handleGachaRoll_def exampleState_def initialState_def Let_def s_def e_def)
  then show ?thesis
    by (simp add: addRatingsToSpots_ids exampleElements_ids)
qed

theorem C9_failed_point_is_skipped_witness:
  "randomInRange exampleRandom \<and>
   exampleSource 0 (calculateMidPoint (equatorPoint 1) (equatorPoint 1)) 3000 Cafe = Rejected \<and>
   searchSpots exampleSource 0 (equatorPoint 1) (equatorPoint 1) 3000 Cafe = Inl FetchRejected \<and>
   exampleSource 2 (calculateMidPoint (equatorPoint 2) (equatorPoint 2)) 3000 Cafe
     = Resolved 500 None \<and>
   searchSpots exampleSource 2 (equatorPoint 2) (equatorPoint 2) 3000 Cafe
     = Inl (OverpassApiError 500) \<and>
   fetchLoop exampleSource 0 3000 Cafe [equatorPoint 1, equatorPoint 4, equatorPoint 2] []
     = convertToSpots exampleElements \<and>
   startPoint exampleState \<noteq> None \<and> endPoint exampleState \<noteq> None \<and>
   \<not> isLoading (handleGachaRoll 0 exampleRandom exampleSource exampleState) \<and>
   map spot.id' (gachaSpots (handleGachaRoll 0 exampleRandom exampleSource exampleState))
     = [''node_7'', ''node_8'']"
proof -
  have rejected: "exampleSource 0 (calculateMidPoint (equatorPoint 1) (equatorPoint 1)) 3000 Cafe
      = Rejected"
    by (simp add: exampleSource_def)
  have status: "exampleSource 2 (calculateMidPoint (equatorPoint 2) (equatorPoint 2)) 3000 Cafe
      = Resolved 500 None"
    by (simp add: exampleSource_def)
  have points: "startPoint exampleState \<noteq> None" "endPoint exampleState \<noteq> None"
    by (simp_all add: exampleState_def)
  note first = C9_failed_point_is_skipped [OF exampleRandom_in_range, where source = exampleSource and call = 0
      and midPoint = "equatorPoint 1" and r = 3000 and cat = Cafe and status = 0
      and body = None and err = FetchRejected and rest = "[]" and allSpots = "[]"
      and midPoints = "[equatorPoint 1, equatorPoint 4, equatorPoint 2]"
      and s = "equatorPoint 0" and e = "equatorPoint 5"
      and st = exampleState and now = 0]
  note third = C9_failed_point_is_skipped [OF exampleRandom_in_range, where source = exampleSource and call = 2
      and midPoint = "equatorPoint 2" and r = 3000 and cat = Cafe and status = 500
      and body = None and err = FetchRejected and rest = "[]" and allSpots = "[]"
      and midPoints = "[]"
      and s = "equatorPoint 0" and e = "equatorPoint 5"
      and st = exampleState and now = 0]
  have "searchSpots exampleSource 0 (equatorPoint 1) (equatorPoint 1) 3000 Cafe = Inl FetchRejected"
    using first rejected by blast
  moreover have "searchSpots exampleSource 2 (equatorPoint 2) (equatorPoint 2) 3000 Cafe
      = Inl (OverpassApiError 500)"
    using third status by simp
  moreover have "fetchLoop exampleSource 0 3000 Cafe [equatorPoint 1, equatorPoint 4, equatorPoint 2] []
      = [] @ concat (map (\<lambda>(i, midPoint). candidatesOf exampleSource (0 + i) 3000 Cafe midPoint)
                        (enumerate 0 [equatorPoint 1, equatorPoint 4, equatorPoint 2]))"
    using first by blast
  then have "fetchLoop exampleSource 0 3000 Cafe [equatorPoint 1, equatorPoint 4, equatorPoint 2] []
      = convertToSpots exampleElements"
    by (simp only: exampleSource_candidates append_Nil add_0)
  moreover have "\<not> isLoading (handleGachaRoll 0 exampleRandom exampleSource exampleState)"
    using first points by blast
  ultimately show ?thesis
    using exampleRandom_in_range rejected status points example_roll [of 0] by (intro conjI)
qed

end
